theory Spec2Isabelle
  imports Complex_Main
begin

section \<open>Python values, exceptions and dictionaries\<close>

text \<open>
  The exceptions the modelled code can raise. A function of the source that may raise
  returns \<open>exn + 'a\<close>, with \<open>Inl\<close> for the raised exception.
\<close>

datatype exn = ValueError | TypeError | KeyError | IndexError | UnboundLocalError
  | AttributeError | OtherError string

text \<open>
  A Python \<open>dict\<close> keeps its keys unique and in insertion order: an association list
  with \<open>d[k] = v\<close> replacing the value of an existing key in place and appending a new
  key at the end.
\<close>

type_synonym ('k, 'v) dict = "('k \<times> 'v) list"

fun dict_set :: "'k \<Rightarrow> 'v \<Rightarrow> ('k, 'v) dict \<Rightarrow> ('k, 'v) dict" where
  "dict_set k v [] = [(k, v)]"
| "dict_set k v ((k', v') # d) = (if k' = k then (k, v) # d else (k', v') # dict_set k v d)"

text \<open>\<open>dict(pairs)\<close>: the pairs are inserted from left to right.\<close>

definition dict_from_pairs :: "('k \<times> 'v) list \<Rightarrow> ('k, 'v) dict" where
  "dict_from_pairs ps = foldl (\<lambda>d (k, v). dict_set k v d) [] ps"

text \<open>\<open>d.get(k, default)\<close>.\<close>

definition dict_get :: "('k, 'v) dict \<Rightarrow> 'k \<Rightarrow> 'v \<Rightarrow> 'v" where
  "dict_get d k dflt = (case map_of d k of None \<Rightarrow> dflt | Some v \<Rightarrow> v)"

section \<open>Schedules and their combination\<close>

text \<open>
  A schedule is a list of (algorithm, budget) pairs; the selector and the pre-solver each
  return a dictionary from instance names to schedules.
\<close>

type_synonym schedule = "(string \<times> real) list"
type_synonym schedules = "(string, schedule) dict"

text \<open>
  The last statement of \<open>AutoFolio.predict\<close>:
  \<^verbatim>\<open>
  if pre_solving_schedule:
      return dict((inst, pre_solving_schedule.get(inst, []) + schedule)
                  for inst, schedule in pred_schedules.items())
  else:
      return pred_schedules
  \<close>
  A dictionary is true when it is not empty.
\<close>

definition combine_schedules :: "schedules \<Rightarrow> schedules \<Rightarrow> schedules" where
  "combine_schedules pre_solving_schedule pred_schedules =
     (if pre_solving_schedule \<noteq> [] then
        dict_from_pairs
          (map (\<lambda>(inst, schedule). (inst, dict_get pre_solving_schedule inst [] @ schedule))
               pred_schedules)
      else pred_schedules)"

section \<open>Scenarios and configurations\<close>

text \<open>
  The values a configuration dictionary holds, and Python's truth test on them
  (\<open>None\<close>, \<open>False\<close>, zero and the empty string are false).
\<close>

datatype pyval = PNone | PBool bool | PInt int | PFloat real | PStr string

fun truthy :: "pyval \<Rightarrow> bool" where
  "truthy PNone = False"
| "truthy (PBool b) = b"
| "truthy (PInt n) = (n \<noteq> 0)"
| "truthy (PFloat x) = (x \<noteq> 0)"
| "truthy (PStr s) = (s \<noteq> [])"

type_synonym configuration = "(string, pyval) dict"

text \<open>\<open>config.get(name)\<close>: the value, or \<open>None\<close> for a name the configuration lacks.\<close>

definition config_get :: "configuration \<Rightarrow> string \<Rightarrow> pyval" where
  "config_get config name = dict_get config name PNone"

text \<open>
  The fields of \<open>ASlibScenario\<close> that the modelled code reads. \<open>feature_data\<close> is a
  data frame: its rows, each with its index label (the instance name) and its values.
  \<open>performance_data\<close> is a data frame read by column: the column of an algorithm, or
  nothing for a name that is no column (pandas raises \<open>KeyError\<close>); all columns of a
  data frame have the same length. Performance values and run times are real numbers.
  \<open>performance_type\<close> and \<open>maximize\<close> are lists, read at index 0, and
  \<open>algorithm_cutoff_time\<close> may be \<open>None\<close>.
\<close>

record scenario =
  algorithms :: "string list"
  feature_data :: "(string \<times> real list) list"
  performance_data :: "string \<Rightarrow> real list option"
  performance_type :: "string list"
  maximize :: "bool list"
  algorithm_cutoff_time :: "real option"

section \<open>The pairwise classifier\<close>

text \<open>
  A fitted binary classifier is used only through \<open>clf.predict(X)\<close>, so it is modelled
  as that method: from the feature matrix to the vector of predicted labels, or an
  exception. A classifier class is modelled as construction followed by
  \<open>clf.fit(X, y, config, weights)\<close>: it returns the fitted classifier, or an exception.
\<close>

type_synonym classifier = "real list list \<Rightarrow> exn + int list"
type_synonym classifier_class =
  "real list list \<Rightarrow> bool list \<Rightarrow> configuration \<Rightarrow> real list \<Rightarrow> exn + classifier"

text \<open>
  The state of a \<open>PairwiseClassifier\<close>. \<open>classifier_class\<close> may be \<open>None\<close>
  (\<open>fit_selector\<close> passes \<open>None\<close> for an unknown classifier name); the attribute
  \<open>algorithms\<close> exists only after \<open>fit\<close>.
\<close>

record PairwiseClassifier =
  classifiers :: "classifier list"
  classifier_class :: "classifier_class option"
  self_algorithms :: "string list option"

text \<open>\<open>PairwiseClassifier.__init__\<close>.\<close>

definition PairwiseClassifier_init :: "classifier_class option \<Rightarrow> PairwiseClassifier" where
  "PairwiseClassifier_init cls =
     \<lparr>classifiers = [], classifier_class = cls, self_algorithms = None\<rparr>"

text \<open>
  A \<open>for\<close> loop over a list whose body updates a state and may raise: the first
  exception ends the loop.
\<close>

fun for_each :: "'a list \<Rightarrow> ('a \<Rightarrow> 's \<Rightarrow> exn + 's) \<Rightarrow> 's \<Rightarrow> exn + 's" where
  "for_each [] body s = Inr s"
| "for_each (x # xs) body s =
     (case body x s of Inl e \<Rightarrow> Inl e | Inr s' \<Rightarrow> for_each xs body s')"

text \<open>
  The element-wise operations of numpy on two columns of the same data frame:
  \<open>y_i < y_j\<close> and \<open>np.abs(y_i - y_j)\<close>.
\<close>

definition array_less :: "real list \<Rightarrow> real list \<Rightarrow> bool list" where
  "array_less y_i y_j = map (\<lambda>(a, b). a < b) (zip y_i y_j)"

definition array_abs_diff :: "real list \<Rightarrow> real list \<Rightarrow> real list" where
  "array_abs_diff y_i y_j = map (\<lambda>(a, b). \<bar>a - b\<bar>) (zip y_i y_j)"

text \<open>
  The body of the inner loop of \<open>fit\<close>, in two parts. The labels and the weights of
  the pair:
  \<^verbatim>\<open>
  y_i = scenario.performance_data[scenario.algorithms[i]].values
  y_j = scenario.performance_data[scenario.algorithms[j]].values
  y = y_i < y_j
  weights = np.abs(y_i - y_j)
  \<close>
  and the classifier fitted on them:
  \<^verbatim>\<open>
  clf = self.classifier_class()
  clf.fit(X, y, config, weights)
  self.classifiers.append(clf)
  \<close>
  Calling a \<open>classifier_class\<close> that is \<open>None\<close> raises \<open>TypeError\<close>. The loop keeps
  \<open>i\<close> and \<open>j\<close> below the number of algorithms.
\<close>

definition pair_training_data :: "scenario \<Rightarrow> nat \<Rightarrow> nat \<Rightarrow> exn + bool list \<times> real list" where
  "pair_training_data scenario i j =
     (case performance_data scenario (algorithms scenario ! i) of
        None \<Rightarrow> Inl KeyError
      | Some y_i \<Rightarrow>
     (case performance_data scenario (algorithms scenario ! j) of
        None \<Rightarrow> Inl KeyError
      | Some y_j \<Rightarrow> Inr (array_less y_i y_j, array_abs_diff y_i y_j)))"

definition fit_pair ::
  "scenario \<Rightarrow> configuration \<Rightarrow> real list list \<Rightarrow> nat \<Rightarrow> nat
     \<Rightarrow> PairwiseClassifier \<Rightarrow> exn + PairwiseClassifier" where
  "fit_pair scenario config X i j self =
     (case pair_training_data scenario i j of
        Inl e \<Rightarrow> Inl e
      | Inr (y, weights) \<Rightarrow>
         (case classifier_class self of
            None \<Rightarrow> Inl TypeError
          | Some cls \<Rightarrow>
             (case cls X y config weights of
                Inl e \<Rightarrow> Inl e
              | Inr clf \<Rightarrow> Inr (self\<lparr>classifiers := classifiers self @ [clf]\<rparr>))))"

text \<open>
  \<open>PairwiseClassifier.fit\<close>:
  \<^verbatim>\<open>
  self.algorithms = scenario.algorithms
  n_algos = len(scenario.algorithms)
  X = scenario.feature_data.values
  for i in range(n_algos):
      for j in range(i + 1, n_algos):
          ...
  \<close>
\<close>

definition PairwiseClassifier_fit ::
  "PairwiseClassifier \<Rightarrow> scenario \<Rightarrow> configuration \<Rightarrow> exn + PairwiseClassifier" where
  "PairwiseClassifier_fit self scenario config =
     (let self = self\<lparr>self_algorithms := Some (algorithms scenario)\<rparr>;
          n_algos = length (algorithms scenario);
          X = map snd (feature_data scenario)
      in for_each [0..<n_algos]
           (\<lambda>i. for_each [i + 1..<n_algos] (\<lambda>j. fit_pair scenario config X i j)) self)"

text \<open>
  \<open>scores[mask, i] += 1\<close> for a Boolean mask over the rows. numpy raises
  \<open>IndexError\<close> when the mask and the matrix differ in their number of rows.
\<close>

definition add_votes :: "nat list list \<Rightarrow> bool list \<Rightarrow> nat \<Rightarrow> exn + nat list list" where
  "add_votes scores row_mask i =
     (if length row_mask \<noteq> length scores then Inl IndexError
      else Inr (map (\<lambda>(row, m). if m then row[i := row ! i + 1] else row) (zip scores row_mask)))"

text \<open>
  The body of the inner loop of \<open>predict\<close>, on the state (\<open>scores\<close>, \<open>clf_indx\<close>):
  \<^verbatim>\<open>
  clf = self.classifiers[clf_indx]
  Y = clf.predict(X)
  scores[Y == 1, i] += 1
  scores[Y == 0, j] += 1
  clf_indx += 1
  \<close>
\<close>

definition predict_pair ::
  "PairwiseClassifier \<Rightarrow> real list list \<Rightarrow> nat \<Rightarrow> nat
     \<Rightarrow> nat list list \<times> nat \<Rightarrow> exn + nat list list \<times> nat" where
  "predict_pair self X i j st =
     (case st of (scores, clf_indx) \<Rightarrow>
        if length (classifiers self) \<le> clf_indx then Inl IndexError
        else
          (case (classifiers self ! clf_indx) X of
             Inl e \<Rightarrow> Inl e
           | Inr Y \<Rightarrow>
              (case add_votes scores (map (\<lambda>y. y = 1) Y) i of
                 Inl e \<Rightarrow> Inl e
               | Inr scores \<Rightarrow>
                  (case add_votes scores (map (\<lambda>y. y = 0) Y) j of
                     Inl e \<Rightarrow> Inl e
                   | Inr scores \<Rightarrow> Inr (scores, clf_indx + 1)))))"

text \<open>
  The vote matrix of \<open>predict\<close>: \<open>np.zeros((X.shape[0], n_algos))\<close> updated by the two
  loops over the pairs.
\<close>

definition predict_scores :: "PairwiseClassifier \<Rightarrow> scenario \<Rightarrow> exn + nat list list" where
  "predict_scores self scenario =
     (let n_algos = length (algorithms scenario);
          X = map snd (feature_data scenario);
          scores = replicate (length X) (replicate n_algos 0);
          clf_indx = 0
      in case for_each [0..<n_algos]
                (\<lambda>i. for_each [i + 1..<n_algos] (\<lambda>j. predict_pair self X i j))
                (scores, clf_indx) of
           Inl e \<Rightarrow> Inl e
         | Inr (scores, clf_indx) \<Rightarrow> Inr scores)"

text \<open>
  numpy's \<open>argmax\<close> of one row: the index of the first occurrence of the maximum, found
  by a scan from the left that replaces the best index only on a strictly larger value.
\<close>

fun argmax_scan :: "nat list \<Rightarrow> nat \<Rightarrow> nat \<Rightarrow> nat \<Rightarrow> nat" where
  "argmax_scan [] pos best_pos best = best_pos"
| "argmax_scan (x # xs) pos best_pos best =
     (if best < x then argmax_scan xs (pos + 1) pos x
      else argmax_scan xs (pos + 1) best_pos best)"

definition argmax_row :: "nat list \<Rightarrow> nat" where
  "argmax_row row = (case row of [] \<Rightarrow> 0 | x # xs \<Rightarrow> argmax_scan xs 1 0 x)"

text \<open>
  \<open>np.argmax(scores, axis=1)\<close> on a matrix with \<open>n_cols\<close> columns: numpy raises
  \<open>ValueError\<close> when the axis it reduces is empty.
\<close>

definition np_argmax_axis1 :: "nat \<Rightarrow> nat list list \<Rightarrow> exn + nat list" where
  "np_argmax_axis1 n_cols scores =
     (if n_cols = 0 then Inl ValueError else Inr (map argmax_row scores))"

text \<open>
  \<open>PairwiseClassifier.predict\<close>:
  \<^verbatim>\<open>
  if scenario.algorithm_cutoff_time:
      cutoff = scenario.algorithm_cutoff_time
  else:
      cutoff = 2**31
  ...
  algo_indx = np.argmax(scores, axis=1)
  schedules = dict((str(inst),[s]) for s,inst in
      zip([(scenario.algorithms[i], cutoff+1) for i in algo_indx],
          scenario.feature_data.index))
  return schedules
  \<close>
  Instance names are strings, on which \<open>str\<close> is the identity.
\<close>

definition predict_cutoff :: "scenario \<Rightarrow> real" where
  "predict_cutoff scenario =
     (case algorithm_cutoff_time scenario of
        None \<Rightarrow> 2 ^ 31
      | Some c \<Rightarrow> if c \<noteq> 0 then c else 2 ^ 31)"

definition PairwiseClassifier_predict :: "PairwiseClassifier \<Rightarrow> scenario \<Rightarrow> exn + schedules" where
  "PairwiseClassifier_predict self scenario =
     (let cutoff = predict_cutoff scenario;
          n_algos = length (algorithms scenario)
      in case predict_scores self scenario of
           Inl e \<Rightarrow> Inl e
         | Inr scores \<Rightarrow>
            (case np_argmax_axis1 n_algos scores of
               Inl e \<Rightarrow> Inl e
             | Inr algo_indx \<Rightarrow>
                Inr (dict_from_pairs
                      (map (\<lambda>(s, inst). (inst, [s]))
                         (zip (map (\<lambda>i. (algorithms scenario ! i, cutoff + 1)) algo_indx)
                              (map fst (feature_data scenario)))))))"

section \<open>The AutoFolio class\<close>

text \<open>
  The kinds of hyperparameter a configuration space holds; the code tells them apart with
  \<open>type(...) is ...\<close>.
\<close>

datatype hyperparameter = CategoricalHyperparameter | UniformFloatHyperparameter
  | UniformIntegerHyperparameter | OtherHyperparameter

type_synonym configuration_space = "(string, hyperparameter) dict"

text \<open>
  Fitted objects of the collaborating classes are used through one method each, and are
  modelled as that method: a fitted preprocessing stage as its \<open>transform\<close>, a fitted
  pre-solver as its \<open>predict\<close>.
\<close>

type_synonym stage = "scenario \<Rightarrow> exn + scenario"
type_synonym pre_solver = "scenario \<Rightarrow> exn + schedules"

text \<open>
  The collaborators that are not part of the two modelled files, taken as parameters:
  \<^item> \<open>py_int\<close>, \<open>py_float\<close>: Python's \<open>int(value)\<close> and \<open>float(value)\<close> on a
    string, which raise \<open>ValueError\<close> on a malformed one;
  \<^item> \<open>Configuration_valid\<close>: the check made by \<open>Configuration(cs, values=...)\<close>,
    which raises \<open>ValueError\<close> for values the space does not allow and otherwise
    builds the configuration holding the given values;
  \<^item> the four preprocessing classes, as construction followed by
    \<open>fit_transform(scenario, config)\<close>: the transformed scenario and the fitted stage;
  \<^item> \<open>Aspeed\<close>, as construction followed by \<open>fit(scenario, config)\<close>;
  \<^item> \<open>RandomForest\<close>, the classifier class;
  \<^item> \<open>get_split\<close>: \<open>scenario.get_split(indx=i)\<close>, the test and the training scenario;
  \<^item> \<open>Stats_init\<close>, \<open>stats_merge\<close>, \<open>stats_show\<close>: the constructor
    \<open>Stats(runtime_cutoff=...)\<close> and the methods \<open>merge\<close> and \<open>show\<close>;
  \<^item> \<open>validate_runtime\<close>, \<open>validate_quality\<close>: the methods of \<open>Validator\<close>.
\<close>

record 'stats externals =
  py_int :: "string \<Rightarrow> exn + int"
  py_float :: "string \<Rightarrow> exn + real"
  Configuration_valid :: "configuration_space option \<Rightarrow> configuration \<Rightarrow> bool"
  FeatureGroupFiltering :: "scenario \<Rightarrow> configuration \<Rightarrow> exn + scenario \<times> stage"
  ImputerWrapper :: "scenario \<Rightarrow> configuration \<Rightarrow> exn + scenario \<times> stage"
  StandardScalerWrapper :: "scenario \<Rightarrow> configuration \<Rightarrow> exn + scenario \<times> stage"
  PCAWrapper :: "scenario \<Rightarrow> configuration \<Rightarrow> exn + scenario \<times> stage"
  Aspeed :: "scenario \<Rightarrow> configuration \<Rightarrow> exn + pre_solver"
  RandomForest :: classifier_class
  get_split :: "scenario \<Rightarrow> int \<Rightarrow> exn + scenario \<times> scenario"
  Stats_init :: "real option \<Rightarrow> 'stats"
  stats_merge :: "'stats \<Rightarrow> 'stats \<Rightarrow> exn + 'stats"
  stats_show :: "'stats \<Rightarrow> exn + real"
  validate_runtime :: "schedules \<Rightarrow> scenario \<Rightarrow> exn + 'stats"
  validate_quality :: "schedules \<Rightarrow> scenario \<Rightarrow> exn + 'stats"

text \<open>The attributes of an \<open>AutoFolio\<close> object; both are \<open>None\<close> after \<open>__init__\<close>.\<close>

record AutoFolio =
  cs :: "configuration_space option"
  overwrite_args :: "string list option"

text \<open>
  The local function \<open>pairwise\<close> of \<open>_overwrite_configuration\<close>:
  \<^verbatim>\<open>
  a, b = tee(iterable)
  next(b, None)
  return zip(a, b)
  \<close>
  Each element is paired with its successor.
\<close>

definition pairwise :: "'a list \<Rightarrow> ('a \<times> 'a) list" where
  "pairwise iterable = zip iterable (tl iterable)"

text \<open>
  \<open>self.cs.get_hyperparameter(param)\<close>: \<open>AttributeError\<close> on a space that is
  \<open>None\<close>, \<open>KeyError\<close> for a name the space lacks.
\<close>

definition get_hyperparameter :: "AutoFolio \<Rightarrow> string \<Rightarrow> exn + hyperparameter" where
  "get_hyperparameter self param =
     (case cs self of
        None \<Rightarrow> Inl AttributeError
      | Some space \<Rightarrow>
         (case map_of space param of None \<Rightarrow> Inl KeyError | Some hp \<Rightarrow> Inr hp))"

text \<open>The warning \<open>"Unknown given parameter: %s %s" % (param, value)\<close>.\<close>

definition unknown_parameter_warning :: "string \<Rightarrow> string \<Rightarrow> string" where
  "unknown_parameter_warning param value =
     ''Unknown given parameter: '' @ param @ '' '' @ value"

text \<open>
  The body of the loop of \<open>_overwrite_configuration\<close>, on the state of the dictionary
  and the warnings logged so far:
  \<^verbatim>\<open>
  if dict_conf.get(param):
      if type(self.cs.get_hyperparameter(param)) is UniformIntegerHyperparameter:
          dict_conf[param] = int(value)
      elif type(self.cs.get_hyperparameter(param)) is UniformFloatHyperparameter:
          dict_conf[param] = float(value)
      elif value == "True":
          dict_conf[param] = True
      elif value == "False":
          dict_conf[param] = False
      else:
          dict_conf[param] = value
  else:
      self.logger.warn("Unknown given parameter: %s %s" % (param, value))
  \<close>
  The second lookup of the hyperparameter returns what the first one returned.
\<close>

definition overwrite_step ::
  "'stats externals \<Rightarrow> AutoFolio \<Rightarrow> string \<times> string
     \<Rightarrow> configuration \<times> string list \<Rightarrow> exn + configuration \<times> string list" where
  "overwrite_step ext self pv st =
     (case pv of (param, value) \<Rightarrow>
      case st of (dict_conf, warnings) \<Rightarrow>
        if truthy (dict_get dict_conf param PNone) then
          (case get_hyperparameter self param of
             Inl e \<Rightarrow> Inl e
           | Inr hp \<Rightarrow>
              if hp = UniformIntegerHyperparameter then
                (case py_int ext value of
                   Inl e \<Rightarrow> Inl e
                 | Inr n \<Rightarrow> Inr (dict_set param (PInt n) dict_conf, warnings))
              else if hp = UniformFloatHyperparameter then
                (case py_float ext value of
                   Inl e \<Rightarrow> Inl e
                 | Inr x \<Rightarrow> Inr (dict_set param (PFloat x) dict_conf, warnings))
              else if value = ''True'' then
                Inr (dict_set param (PBool True) dict_conf, warnings)
              else if value = ''False'' then
                Inr (dict_set param (PBool False) dict_conf, warnings)
              else Inr (dict_set param (PStr value) dict_conf, warnings))
        else Inr (dict_conf, warnings @ [unknown_parameter_warning param value]))"

text \<open>
  \<open>AutoFolio._overwrite_configuration\<close>: the loop over the pairs, then
  \<open>Configuration(self.cs, values=dict_conf)\<close>. The result is the new configuration
  together with the warnings logged.
\<close>

definition overwrite_configuration ::
  "'stats externals \<Rightarrow> AutoFolio \<Rightarrow> configuration \<Rightarrow> string list
     \<Rightarrow> exn + configuration \<times> string list" where
  "overwrite_configuration ext self config overwrite_args' =
     (let dict_conf = config
      in case for_each (pairwise overwrite_args') (overwrite_step ext self) (dict_conf, []) of
           Inl e \<Rightarrow> Inl e
         | Inr (dict_conf, warnings) \<Rightarrow>
            if Configuration_valid ext (cs self) dict_conf then Inr (dict_conf, warnings)
            else Inl ValueError)"

text \<open>
  \<open>AutoFolio.fit_transform_feature_preprocessing\<close>: the four stages in their fixed
  order, each fitted on the scenario the stage before it returned.
\<close>

definition fit_transform_feature_preprocessing ::
  "'stats externals \<Rightarrow> scenario \<Rightarrow> configuration \<Rightarrow> exn + scenario \<times> stage list" where
  "fit_transform_feature_preprocessing ext scenario config =
     (case FeatureGroupFiltering ext scenario config of
        Inl e \<Rightarrow> Inl e
      | Inr (scenario, fgf) \<Rightarrow>
     (case ImputerWrapper ext scenario config of
        Inl e \<Rightarrow> Inl e
      | Inr (scenario, imputer) \<Rightarrow>
     (case StandardScalerWrapper ext scenario config of
        Inl e \<Rightarrow> Inl e
      | Inr (scenario, scaler) \<Rightarrow>
     (case PCAWrapper ext scenario config of
        Inl e \<Rightarrow> Inl e
      | Inr (scenario, pca) \<Rightarrow> Inr (scenario, [fgf, imputer, scaler, pca])))))"

text \<open>
  \<open>AutoFolio.fit_pre_solving\<close>: an \<open>Aspeed\<close> object for a run time scenario, else
  \<open>None\<close>. Reading \<open>performance_type[0]\<close> of an empty list raises \<open>IndexError\<close>.
\<close>

definition fit_pre_solving ::
  "'stats externals \<Rightarrow> scenario \<Rightarrow> configuration \<Rightarrow> exn + pre_solver option" where
  "fit_pre_solving ext scenario config =
     (case performance_type scenario of
        [] \<Rightarrow> Inl IndexError
      | pt # _ \<Rightarrow>
         if pt = ''runtime'' then
           (case Aspeed ext scenario config of
              Inl e \<Rightarrow> Inl e
            | Inr aspeed \<Rightarrow> Inr (Some aspeed))
         else Inr None)"

text \<open>
  \<open>AutoFolio.fit_selector\<close>:
  \<^verbatim>\<open>
  if config.get("selector") == "PairwiseClassifier":
      clf_class = None
      if config.get("classifier") == "RandomForest":
          clf_class = RandomForest
      selector = PairwiseClassifier(classifier_class=clf_class)
      selector.fit(scenario=scenario, config=config)
  return selector
  \<close>
  When the condition is false the local variable \<open>selector\<close> is never assigned, and
  reading it in the \<open>return\<close> statement raises \<open>UnboundLocalError\<close>.
\<close>

definition fit_selector ::
  "'stats externals \<Rightarrow> scenario \<Rightarrow> configuration \<Rightarrow> exn + PairwiseClassifier" where
  "fit_selector ext scenario config =
     (if config_get config ''selector'' = PStr ''PairwiseClassifier'' then
        (let clf_class =
               (if config_get config ''classifier'' = PStr ''RandomForest''
                then Some (RandomForest ext) else None);
             selector = PairwiseClassifier_init clf_class
         in PairwiseClassifier_fit selector scenario config)
      else Inl UnboundLocalError)"

text \<open>
  \<open>AutoFolio.fit\<close>. \<open>self.overwrite_args\<close> is true when it is a list that is not
  empty. The warnings of \<open>_overwrite_configuration\<close> go to the log and are dropped.
\<close>

definition AutoFolio_fit ::
  "'stats externals \<Rightarrow> AutoFolio \<Rightarrow> scenario \<Rightarrow> configuration
     \<Rightarrow> exn + stage list \<times> pre_solver option \<times> PairwiseClassifier" where
  "AutoFolio_fit ext self scenario config =
     (case (case overwrite_args self of
              None \<Rightarrow> Inr config
            | Some args \<Rightarrow>
               if args \<noteq> [] then
                 (case overwrite_configuration ext self config args of
                    Inl e \<Rightarrow> Inl e
                  | Inr (config, warnings) \<Rightarrow> Inr config)
               else Inr config) of
        Inl e \<Rightarrow> Inl e
      | Inr config \<Rightarrow>
     (case fit_transform_feature_preprocessing ext scenario config of
        Inl e \<Rightarrow> Inl e
      | Inr (scenario, feature_pre_pipeline) \<Rightarrow>
     (case fit_pre_solving ext scenario config of
        Inl e \<Rightarrow> Inl e
      | Inr pre_solver \<Rightarrow>
     (case fit_selector ext scenario config of
        Inl e \<Rightarrow> Inl e
      | Inr selector \<Rightarrow> Inr (feature_pre_pipeline, pre_solver, selector)))))"

text \<open>
  \<open>AutoFolio.predict\<close>: the stages transform the scenario in order, the pre-solver (when
  there is one) and the selector predict, and the two schedules are combined.
\<close>

definition AutoFolio_predict ::
  "scenario \<Rightarrow> configuration \<Rightarrow> stage list \<Rightarrow> pre_solver option \<Rightarrow> PairwiseClassifier
     \<Rightarrow> exn + schedules" where
  "AutoFolio_predict scenario config feature_pre_pipeline pre_solver selector =
     (case for_each feature_pre_pipeline (\<lambda>f_pre scenario. f_pre scenario) scenario of
        Inl e \<Rightarrow> Inl e
      | Inr scenario \<Rightarrow>
     (case (case pre_solver of
              Some aspeed \<Rightarrow> aspeed scenario
            | None \<Rightarrow> Inr []) of
        Inl e \<Rightarrow> Inl e
      | Inr pre_solving_schedule \<Rightarrow>
     (case PairwiseClassifier_predict selector scenario of
        Inl e \<Rightarrow> Inl e
      | Inr pred_schedules \<Rightarrow> Inr (combine_schedules pre_solving_schedule pred_schedules))))"

text \<open>
  The body of the loop of \<open>run_cv\<close>, on the state \<open>cv_stat\<close>:
  \<^verbatim>\<open>
  test_scenario, training_scenario = scenario.get_split(indx=i)
  feature_pre_pipeline, pre_solver, selector = self.fit(
      scenario=training_scenario, config=config)
  schedules = self.predict(
      test_scenario, config, feature_pre_pipeline, pre_solver, selector)
  val = Validator()
  if scenario.performance_type[0] == "runtime":
      stats = val.validate_runtime(schedules=schedules, test_scenario=test_scenario)
  elif scenario.performance_type[0] == "solution_quality":
      stats = val.validate_quality(schedules=schedules, test_scenario=test_scenario)
  else:
      raise ValueError("Unknown performance_type[0]")
  cv_stat.merge(stat=stats)
  \<close>
\<close>

definition cv_fold ::
  "'stats externals \<Rightarrow> AutoFolio \<Rightarrow> configuration \<Rightarrow> scenario \<Rightarrow> int \<Rightarrow> 'stats
     \<Rightarrow> exn + 'stats" where
  "cv_fold ext self config scenario i cv_stat =
     (case get_split ext scenario i of
        Inl e \<Rightarrow> Inl e
      | Inr (test_scenario, training_scenario) \<Rightarrow>
     (case AutoFolio_fit ext self training_scenario config of
        Inl e \<Rightarrow> Inl e
      | Inr (feature_pre_pipeline, pre_solver, selector) \<Rightarrow>
     (case AutoFolio_predict test_scenario config feature_pre_pipeline pre_solver selector of
        Inl e \<Rightarrow> Inl e
      | Inr schedules \<Rightarrow>
     (case (case performance_type scenario of
              [] \<Rightarrow> Inl IndexError
            | pt # _ \<Rightarrow>
               if pt = ''runtime'' then validate_runtime ext schedules test_scenario
               else if pt = ''solution_quality'' then
                 validate_quality ext schedules test_scenario
               else Inl ValueError) of
        Inl e \<Rightarrow> Inl e
      | Inr stats \<Rightarrow> stats_merge ext cv_stat stats))))"

text \<open>
  The accumulator \<open>run_cv\<close> starts from:
  \<^verbatim>\<open>
  if scenario.performance_type[0] == "runtime":
      cv_stat = Stats(runtime_cutoff=scenario.algorithm_cutoff_time)
  else:
      cv_stat = Stats(runtime_cutoff=0)
  \<close>
\<close>

definition cv_initial_stat :: "'stats externals \<Rightarrow> scenario \<Rightarrow> exn + 'stats" where
  "cv_initial_stat ext scenario =
     (case performance_type scenario of
        [] \<Rightarrow> Inl IndexError
      | pt # _ \<Rightarrow>
         if pt = ''runtime'' then Inr (Stats_init ext (algorithm_cutoff_time scenario))
         else Inr (Stats_init ext (Some 0)))"

text \<open>
  The \<open>try\<close> block of \<open>run_cv\<close>: the initial accumulator, the loop
  \<open>for i in range(1, folds + 1)\<close>, and \<open>par10 = cv_stat.show()\<close>.
\<close>

definition run_cv_try ::
  "'stats externals \<Rightarrow> AutoFolio \<Rightarrow> configuration \<Rightarrow> scenario \<Rightarrow> int \<Rightarrow> exn + real" where
  "run_cv_try ext self config scenario folds =
     (case cv_initial_stat ext scenario of
        Inl e \<Rightarrow> Inl e
      | Inr cv_stat \<Rightarrow>
         (case for_each [1..folds] (cv_fold ext self config scenario) cv_stat of
            Inl e \<Rightarrow> Inl e
          | Inr cv_stat \<Rightarrow> stats_show ext cv_stat))"

text \<open>
  The handler of \<open>run_cv\<close>:
  \<^verbatim>\<open>
  except ValueError:
      traceback.print_exc()
      if not scenario.maximize[0]:
          par10 = scenario.algorithm_cutoff_time * 10
      else:
          par10 = scenario.algorithm_cutoff_time * -10
  \<close>
  Multiplying a cutoff that is \<open>None\<close> raises \<open>TypeError\<close>.
\<close>

definition run_cv_except :: "scenario \<Rightarrow> exn + real" where
  "run_cv_except scenario =
     (case maximize scenario of
        [] \<Rightarrow> Inl IndexError
      | m # _ \<Rightarrow>
         (case algorithm_cutoff_time scenario of
            None \<Rightarrow> Inl TypeError
          | Some cutoff \<Rightarrow> if \<not> m then Inr (cutoff * 10) else Inr (cutoff * - 10)))"

text \<open>
  \<open>AutoFolio.run_cv\<close>: the \<open>try\<close> statement, which catches \<open>ValueError\<close> only, and
  then
  \<^verbatim>\<open>
  if scenario.maximize[0]:
      par10 *= -1
  return par10
  \<close>
\<close>

definition run_cv ::
  "'stats externals \<Rightarrow> AutoFolio \<Rightarrow> configuration \<Rightarrow> scenario \<Rightarrow> int \<Rightarrow> exn + real" where
  "run_cv ext self config scenario folds =
     (case (case run_cv_try ext self config scenario folds of
              Inl e \<Rightarrow> if e = ValueError then run_cv_except scenario else Inl e
            | Inr par10 \<Rightarrow> Inr par10) of
        Inl e \<Rightarrow> Inl e
      | Inr par10 \<Rightarrow>
         (case maximize scenario of
            [] \<Rightarrow> Inl IndexError
          | m # _ \<Rightarrow> if m then Inr (par10 * - 1) else Inr par10))"

section \<open>The enumeration of pairs, the specification's order, and examples\<close>

text \<open>
  The pairs \<open>(i, j)\<close> in the order of the two nested loops
  \<open>for i in range(n): for j in range(i + 1, n)\<close>.
\<close>

definition canonical_pairs :: "nat \<Rightarrow> (nat \<times> nat) list" where
  "canonical_pairs n = concat (map (\<lambda>i. map (Pair i) [i + 1..<n]) [0..<n])"

text \<open>The lexicographic order on pairs of indices: first by \<open>i\<close>, then by \<open>j\<close>.\<close>

definition pair_less :: "nat \<times> nat \<Rightarrow> nat \<times> nat \<Rightarrow> bool" where
  "pair_less p q = (fst p < fst q \<or> fst p = fst q \<and> snd p < snd q)"

text \<open>
  The specification's reading of "strictly better under the scenario's convention":
  a larger value is better when the scenario maximises, a smaller one otherwise.
\<close>

definition spec_strictly_better :: "bool \<Rightarrow> real \<Rightarrow> real \<Rightarrow> bool" where
  "spec_strictly_better maximize_flag a b = (if maximize_flag then b < a else a < b)"

definition spec_label_vector :: "bool \<Rightarrow> real list \<Rightarrow> real list \<Rightarrow> bool list" where
  "spec_label_vector maximize_flag y_i y_j =
     map (\<lambda>(a, b). spec_strictly_better maximize_flag a b) (zip y_i y_j)"

text \<open>
  A classifier class for examples: the fitted classifier predicts its training labels
  again (1 for true, 0 for false), whatever the matrix it is given.
\<close>

definition memorising_class :: classifier_class where
  "memorising_class X y config weights = Inr (\<lambda>X'. Inr (map (\<lambda>b. if b then 1 else 0) y))"

text \<open>
  The end-to-end scenario of the specification: two algorithms, three instances with
  run times \<open>A1 = [1, 100, 50]\<close> and \<open>A2 = [100, 1, 50]\<close>, and the cutoff 200.
\<close>

definition example_scenario :: scenario where
  "example_scenario =
     \<lparr>algorithms = [''A1'', ''A2''],
      feature_data = [(''inst1'', [0]), (''inst2'', [1]), (''inst3'', [2])],
      performance_data = map_of [(''A1'', [1, 100, 50]), (''A2'', [100, 1, 50])],
      performance_type = [''runtime''],
      maximize = [False],
      algorithm_cutoff_time = Some 200\<rparr>"

text \<open>A scenario with three algorithms, two instances and no cutoff.\<close>

definition three_scenario :: scenario where
  "three_scenario =
     \<lparr>algorithms = [''A1'', ''A2'', ''A3''],
      feature_data = [(''inst1'', [0]), (''inst2'', [1])],
      performance_data = map_of [(''A1'', [1, 5]), (''A2'', [3, 4]), (''A3'', [2, 6])],
      performance_type = [''runtime''],
      maximize = [False],
      algorithm_cutoff_time = None\<rparr>"

section \<open>Predicates and examples for predict\<close>

text \<open>
  \<open>k\<close> is the index of the first maximum of a row: no entry is larger, and every
  entry before \<open>k\<close> is strictly smaller. The budget \<open>predict\<close> hands out: the cutoff
  plus one, with \<open>2**31\<close> for a cutoff that is \<open>None\<close> or zero.
\<close>

definition first_maximum :: "nat list \<Rightarrow> nat \<Rightarrow> bool" where
  "first_maximum row k =
     (k < length row \<and> (\<forall>m \<in> {0..<length row}. row ! m \<le> row ! k)
        \<and> (\<forall>m \<in> {0..<k}. row ! m < row ! k))"

definition predict_budget :: "scenario \<Rightarrow> real" where
  "predict_budget sc = (case algorithm_cutoff_time sc of
        None \<Rightarrow> 2 ^ 31 + 1
      | Some c \<Rightarrow> if c \<noteq> 0 then c + 1 else 2 ^ 31 + 1)"

text \<open>
  The votes an algorithm \<open>a\<close> gets on the instance \<open>r\<close>: the number of pairs
  \<open>(i, j)\<close>, each with the number \<open>k\<close> of its classifier, whose prediction \<open>Ys ! k\<close>
  is 1 on the instance with \<open>i = a\<close>, or 0 with \<open>j = a\<close>.
\<close>

definition votes_for :: "int list list \<Rightarrow> (nat \<times> nat \<times> nat) list \<Rightarrow> nat \<Rightarrow> nat \<Rightarrow> nat" where
  "votes_for Ys numbered_pairs r a =
     length (filter (\<lambda>(k, (i, j)). (Ys ! k ! r = 1 \<and> i = a) \<or> (Ys ! k ! r = 0 \<and> j = a))
               numbered_pairs)"

text \<open>A vote matrix with \<open>m\<close> rows of \<open>n\<close> entries each.\<close>

definition shaped :: "nat \<Rightarrow> nat \<Rightarrow> nat list list \<Rightarrow> bool" where
  "shaped m n scores = (length scores = m \<and> (\<forall>row \<in> set scores. length row = n))"

text \<open>
  A fitted classifier that predicts the same label vector on every input, and a selector
  over three algorithms whose three classifiers vote in a cycle on the first instance.
\<close>

definition constant_classifier :: "int list \<Rightarrow> classifier" where
  "constant_classifier Y X = Inr Y"

definition cyclic_selector :: PairwiseClassifier where
  "cyclic_selector =
     \<lparr>classifiers = [constant_classifier [1, 0], constant_classifier [0, 0],
                     constant_classifier [1, 0]],
      classifier_class = None,
      self_algorithms = Some [''A1'', ''A2'', ''A3'']\<rparr>"

section \<open>Examples for the AutoFolio class\<close>

text \<open>
  Collaborators for examples: stages that leave the scenario as it is, a pre-solver with
  an empty schedule, the memorising classifier class, a split that returns the scenario
  twice, and statistics that are a single number. \<open>int\<close> reads only the string
  \<open>7\<close>.
\<close>

definition identity_stage :: "scenario \<Rightarrow> configuration \<Rightarrow> exn + scenario \<times> stage" where
  "identity_stage scenario config = Inr (scenario, \<lambda>sc. Inr sc)"

definition example_externals :: "real externals" where
  "example_externals =
     \<lparr>py_int = (\<lambda>s. if s = ''7'' then Inr 7 else Inl ValueError),
      py_float = (\<lambda>s. Inl ValueError),
      Configuration_valid = (\<lambda>space values. True),
      FeatureGroupFiltering = identity_stage,
      ImputerWrapper = identity_stage,
      StandardScalerWrapper = identity_stage,
      PCAWrapper = identity_stage,
      Aspeed = (\<lambda>scenario config. Inr (\<lambda>sc. Inr [])),
      RandomForest = memorising_class,
      get_split = (\<lambda>scenario i. Inr (scenario, scenario)),
      Stats_init = (\<lambda>cutoff. 0),
      stats_merge = (\<lambda>a b. Inr (a + b)),
      stats_show = (\<lambda>a. Inr a),
      validate_runtime = (\<lambda>schedules scenario. Inr 1),
      validate_quality = (\<lambda>schedules scenario. Inr 1)\<rparr>"

definition example_config :: configuration where
  "example_config =
     [(''selector'', PStr ''PairwiseClassifier''), (''classifier'', PStr ''RandomForest'')]"

text \<open>
  The example scenario with a performance type that \<open>run_cv\<close> does not know, and the
  given \<open>maximize\<close> flag.
\<close>

definition accuracy_scenario :: "bool \<Rightarrow> scenario" where
  "accuracy_scenario mx =
     example_scenario\<lparr>performance_type := [''accuracy''], maximize := [mx]\<rparr>"

definition fresh_autofolio :: AutoFolio where
  "fresh_autofolio = \<lparr>cs = None, overwrite_args = None\<rparr>"

text \<open>
  An \<open>AutoFolio\<close> object whose space has a categorical and an integer parameter.
\<close>

definition tuned_autofolio :: AutoFolio where
  "tuned_autofolio =
     \<lparr>cs = Some [(''pca'', CategoricalHyperparameter),
                 (''n_trees'', UniformIntegerHyperparameter)],
      overwrite_args = Some [''pca'', ''True'', ''n_trees'', ''7'']\<rparr>"

section \<open>Facts about dictionaries\<close>

lemma dict_set_fresh: "k \<notin> fst ` set d \<Longrightarrow> dict_set k v d = d @ [(k, v)]"
  by (induction d) auto

lemma dict_fold_distinct:
  "distinct (map fst (acc @ ps)) \<Longrightarrow> foldl (\<lambda>d (k, v). dict_set k v d) acc ps = acc @ ps"
proof (induction ps arbitrary: acc)
  case Nil
  then show ?case by simp
next
  case (Cons p ps)
  obtain k v where p: "p = (k, v)" by (cases p)
  from Cons.prems p have fresh: "k \<notin> fst ` set acc" by auto
  from Cons.prems p have "distinct (map fst ((acc @ [(k, v)]) @ ps))" by simp
  from Cons.IH [OF this] show ?case
    by (simp add: p dict_set_fresh [OF fresh])
qed

lemma dict_from_pairs_distinct: "distinct (map fst ps) \<Longrightarrow> dict_from_pairs ps = ps"
  using dict_fold_distinct [of "[]" ps] by (simp add: dict_from_pairs_def)

lemma map_fst_entries: "map fst (map (\<lambda>(k, v). (k, f k v)) d) = map fst d"
  by (induction d) auto

lemma map_of_entries:
  "map_of (map (\<lambda>(k, v). (k, f k v)) d) k = map_option (f k) (map_of d k)"
  by (induction d) auto

section \<open>Facts about loops and the enumeration of pairs\<close>

lemma for_each_append:
  "for_each (xs @ ys) body s =
     (case for_each xs body s of Inl e \<Rightarrow> Inl e | Inr s' \<Rightarrow> for_each ys body s')"
  by (induction xs arbitrary: s) (auto split: sum.splits)

lemma for_each_map_Pair:
  "for_each (map (Pair i) ys) (\<lambda>(i, j). body i j) s = for_each ys (body i) s"
  by (induction ys arbitrary: s) (auto split: sum.splits)

lemma for_each_nested:
  "for_each xs (\<lambda>i. for_each (g i) (body i)) s
     = for_each (concat (map (\<lambda>i. map (Pair i) (g i)) xs)) (\<lambda>(i, j). body i j) s"
  by (induction xs arbitrary: s)
     (auto simp: for_each_append for_each_map_Pair split: sum.splits)

text \<open>The two nested loops over \<open>range\<close> visit the pairs of \<open>canonical_pairs\<close> in order.\<close>

lemma loops_canonical:
  "for_each [0..<n] (\<lambda>i. for_each [i + 1..<n] (body i)) s
     = for_each (canonical_pairs n) (\<lambda>(i, j). body i j) s"
  unfolding canonical_pairs_def by (rule for_each_nested)

lemma canonical_pairs_set: "set (canonical_pairs n) = {(i, j). i < j \<and> j < n}"
  by (force simp: canonical_pairs_def)

lemma sum_list_countdown: "sum_list (map (\<lambda>i. n - Suc i) [0..<n]) = n * (n - 1) div 2"
proof -
  have "sum_list (map (\<lambda>i. n - Suc i) [0..<n]) = (\<Sum>i<n. n - Suc i)"
    by (simp add: interv_sum_list_conv_sum_set_nat atLeast0LessThan)
  also have "\<dots> = (\<Sum>i<n. i)"
    by (rule sum.nat_diff_reindex)
  also have "\<dots> = n * (n - 1) div 2"
  proof -
    have "2 * (\<Sum>i<n. i) = n * (n - 1)"
    proof (induction n)
      case 0
      show ?case by simp
    next
      case (Suc n)
      then show ?case by (cases n) (simp_all add: algebra_simps)
    qed
    then show ?thesis by (metis nonzero_mult_div_cancel_left zero_neq_numeral)
  qed
  finally show ?thesis .
qed

lemma canonical_pairs_length: "length (canonical_pairs n) = n * (n - 1) div 2"
  by (simp add: canonical_pairs_def length_concat comp_def sum_list_countdown)

lemma sorted_wrt_concat_map:
  assumes "\<And>x. x \<in> set xs \<Longrightarrow> sorted_wrt R (f x)"
    and "sorted_wrt (\<lambda>x y. \<forall>a \<in> set (f x). \<forall>b \<in> set (f y). R a b) xs"
  shows "sorted_wrt R (concat (map f xs))"
  using assms by (induction xs) (auto simp: sorted_wrt_append)

lemma canonical_pairs_sorted: "sorted_wrt pair_less (canonical_pairs n)"
  unfolding canonical_pairs_def
proof (rule sorted_wrt_concat_map)
  fix i
  show "sorted_wrt pair_less (map (Pair i) [i + 1..<n])"
    by (simp add: sorted_wrt_map pair_less_def)
  show "sorted_wrt (\<lambda>x y. \<forall>a\<in>set (map (Pair x) [x + 1..<n]).
                  \<forall>b\<in>set (map (Pair y) [y + 1..<n]). pair_less a b) [0..<n]"
    by (rule sorted_wrt_mono_rel [OF _ sorted_wrt_upt]) (auto simp: pair_less_def)
qed

section \<open>Facts about fitting and the walk of predict\<close>

lemma fit_pairs_result:
  assumes cls: "classifier_class self = Some cls"
    and ok: "\<And>i j. (i, j) \<in> set ps \<Longrightarrow>
               \<exists>y w clf. pair_training_data sc i j = Inr (y, w) \<and> cls X y config w = Inr clf"
  shows "\<exists>cs. for_each ps (\<lambda>(i, j). fit_pair sc config X i j) self
                 = Inr (self\<lparr>classifiers := classifiers self @ cs\<rparr>)
             \<and> list_all2 (\<lambda>(i, j) clf. \<exists>y w. pair_training_data sc i j = Inr (y, w)
                                            \<and> cls X y config w = Inr clf) ps cs"
  using assms
proof (induction ps arbitrary: self)
  case Nil
  then show ?case by simp
next
  case (Cons p ps)
  obtain i j where p: "p = (i, j)" by (cases p)
  from Cons.prems(2) [of i j] p obtain y w clf
    where td: "pair_training_data sc i j = Inr (y, w)" and fit: "cls X y config w = Inr clf"
    by auto
  let ?self = "self\<lparr>classifiers := classifiers self @ [clf]\<rparr>"
  have step: "fit_pair sc config X i j self = Inr ?self"
    by (simp add: fit_pair_def td fit Cons.prems(1))
  have "classifier_class ?self = Some cls" using Cons.prems(1) by simp
  from Cons.IH [OF this] Cons.prems(2)
  obtain cs where rest: "for_each ps (\<lambda>(i, j). fit_pair sc config X i j) ?self
                 = Inr (?self\<lparr>classifiers := classifiers ?self @ cs\<rparr>)"
    and all: "list_all2 (\<lambda>(i, j) clf. \<exists>y w. pair_training_data sc i j = Inr (y, w)
                                            \<and> cls X y config w = Inr clf) ps cs"
    by auto
  show ?case
  proof (intro exI conjI)
    show "for_each (p # ps) (\<lambda>(i, j). fit_pair sc config X i j) self
            = Inr (self\<lparr>classifiers := classifiers self @ (clf # cs)\<rparr>)"
      by (simp add: p step rest)
    show "list_all2 (\<lambda>(i, j) clf. \<exists>y w. pair_training_data sc i j = Inr (y, w)
                                            \<and> cls X y config w = Inr clf) (p # ps) (clf # cs)"
      using all td fit by (simp add: p)
  qed
qed

lemma array_less_nth:
  "r < length y_i \<Longrightarrow> r < length y_j \<Longrightarrow> array_less y_i y_j ! r = (y_i ! r < y_j ! r)"
  by (simp add: array_less_def)

lemma array_abs_diff_nth:
  "r < length y_i \<Longrightarrow> r < length y_j \<Longrightarrow> array_abs_diff y_i y_j ! r = \<bar>y_i ! r - y_j ! r\<bar>"
  by (simp add: array_abs_diff_def)

lemma predict_pair_index:
  "predict_pair self X i j (scores, c) = Inr st \<Longrightarrow> \<exists>scores'. st = (scores', c + 1)"
  by (auto simp: predict_pair_def split: if_splits sum.splits)

lemma predict_walk:
  "for_each ps (\<lambda>(i, j). predict_pair self X i j) (scores, c)
     = for_each (enumerate c ps) (\<lambda>(k, (i, j)) st. predict_pair self X i j (fst st, k)) (scores, c)"
proof (induction ps arbitrary: scores c)
  case Nil
  show ?case by simp
next
  case (Cons p ps)
  obtain i j where p: "p = (i, j)" by (cases p)
  show ?case
  proof (cases "predict_pair self X i j (scores, c)")
    case (Inl e)
    then show ?thesis by (simp add: p)
  next
    case (Inr st)
    with predict_pair_index obtain scores' where "st = (scores', c + 1)" by blast
    with Inr show ?thesis by (simp add: p Cons.IH)
  qed
qed


lemma fit_characterisation:
  assumes cls: "classifier_class self = Some cls"
    and ok: "\<And>i j. i < j \<Longrightarrow> j < length (algorithms sc) \<Longrightarrow>
               \<exists>y w clf. pair_training_data sc i j = Inr (y, w)
                        \<and> cls (map snd (feature_data sc)) y config w = Inr clf"
  shows "\<exists>cs. PairwiseClassifier_fit self sc config
                 = Inr (self\<lparr>self_algorithms := Some (algorithms sc),
                              classifiers := classifiers self @ cs\<rparr>)
             \<and> list_all2 (\<lambda>(i, j) clf. \<exists>y w. pair_training_data sc i j = Inr (y, w)
                        \<and> cls (map snd (feature_data sc)) y config w = Inr clf)
                  (canonical_pairs (length (algorithms sc))) cs"
proof -
  let ?self = "self\<lparr>self_algorithms := Some (algorithms sc)\<rparr>"
  have c: "classifier_class ?self = Some cls" using cls by simp
  have "\<exists>y w clf. pair_training_data sc i j = Inr (y, w)
                        \<and> cls (map snd (feature_data sc)) y config w = Inr clf"
    if "(i, j) \<in> set (canonical_pairs (length (algorithms sc)))" for i j
    using ok that by (simp add: canonical_pairs_set)
  with fit_pairs_result [where ps = "canonical_pairs (length (algorithms sc))"
          and sc = sc and X = "map snd (feature_data sc)" and config = config, OF c]
  have "\<exists>cs. for_each (canonical_pairs (length (algorithms sc)))
                (\<lambda>(i, j). fit_pair sc config (map snd (feature_data sc)) i j) ?self
                 = Inr (?self\<lparr>classifiers := classifiers ?self @ cs\<rparr>)
             \<and> list_all2 (\<lambda>(i, j) clf. \<exists>y w. pair_training_data sc i j = Inr (y, w)
                        \<and> cls (map snd (feature_data sc)) y config w = Inr clf)
                  (canonical_pairs (length (algorithms sc))) cs"
    by blast
  then show ?thesis
    unfolding PairwiseClassifier_fit_def Let_def loops_canonical by simp
qed

lemma pair_training_data_cols:
  assumes "performance_data sc (algorithms sc ! i) = Some y_i"
    and "performance_data sc (algorithms sc ! j) = Some y_j"
  shows "pair_training_data sc i j = Inr (array_less y_i y_j, array_abs_diff y_i y_j)"
  using assms by (simp add: pair_training_data_def)

lemma fit_ignores_maximize:
  "PairwiseClassifier_fit self (sc\<lparr>maximize := mx\<rparr>) config = PairwiseClassifier_fit self sc config"
proof -
  have "fit_pair (sc\<lparr>maximize := mx\<rparr>) = fit_pair sc"
    by (intro ext) (simp add: fit_pair_def pair_training_data_def split: option.splits)
  then show ?thesis by (simp add: PairwiseClassifier_fit_def)
qed

lemma predict_scores_walk:
  "predict_scores self sc =
     (case for_each (enumerate 0 (canonical_pairs (length (algorithms sc))))
             (\<lambda>(k, (i, j)) st. predict_pair self (map snd (feature_data sc)) i j (fst st, k))
             (replicate (length (feature_data sc)) (replicate (length (algorithms sc)) 0), 0) of
        Inl e \<Rightarrow> Inl e
      | Inr st \<Rightarrow> Inr (fst st))"
  unfolding predict_scores_def Let_def loops_canonical predict_walk
  by (simp split: sum.splits prod.splits)

lemma three_fit_eval:
  "PairwiseClassifier_fit (PairwiseClassifier_init (Some memorising_class)) three_scenario []
    = Inr \<lparr>classifiers = [\<lambda>X'. Inr [1, 0], \<lambda>X'. Inr [1, 1], \<lambda>X'. Inr [0, 1]],
           classifier_class = Some memorising_class,
           self_algorithms = Some [''A1'', ''A2'', ''A3'']\<rparr>"
  by (simp add: PairwiseClassifier_fit_def PairwiseClassifier_init_def three_scenario_def
       fit_pair_def pair_training_data_def memorising_class_def array_less_def array_abs_diff_def)

section \<open>Facts about predict\<close>

lemma argmax_scan_first_maximum:
  assumes "length pre = pos" and "best_pos < pos" and "pre ! best_pos = best"
    and "\<forall>m < pos. pre ! m \<le> best" and "\<forall>m < best_pos. pre ! m < best"
  shows "first_maximum (pre @ xs) (argmax_scan xs pos best_pos best)"
  using assms
proof (induction xs arbitrary: pre pos best_pos best)
  case Nil
  then show ?case by (simp add: first_maximum_def)
next
  case (Cons x xs)
  show ?case
  proof (cases "best < x")
    case True
    have "first_maximum ((pre @ [x]) @ xs) (argmax_scan xs (pos + 1) pos x)"
    proof (rule Cons.IH)
      show "length (pre @ [x]) = pos + 1" using Cons.prems(1) by simp
      show "pos < pos + 1" by simp
      show "(pre @ [x]) ! pos = x" using Cons.prems(1) by (simp add: nth_append)
      show "\<forall>m < pos + 1. (pre @ [x]) ! m \<le> x"
        using Cons.prems(1,4) True by (auto simp: nth_append less_Suc_eq)
      show "\<forall>m < pos. (pre @ [x]) ! m < x"
        using Cons.prems(1,4) True by (auto simp: nth_append)
    qed
    with True show ?thesis by simp
  next
    case False
    have "first_maximum ((pre @ [x]) @ xs) (argmax_scan xs (pos + 1) best_pos best)"
    proof (rule Cons.IH)
      show "length (pre @ [x]) = pos + 1" using Cons.prems(1) by simp
      show "best_pos < pos + 1" using Cons.prems(2) by simp
      show "(pre @ [x]) ! best_pos = best" using Cons.prems(1,2,3) by (simp add: nth_append)
      show "\<forall>m < pos + 1. (pre @ [x]) ! m \<le> best"
        using Cons.prems(1,4) False by (auto simp: nth_append less_Suc_eq)
      show "\<forall>m < best_pos. (pre @ [x]) ! m < best"
        using Cons.prems(1,2,5) by (auto simp: nth_append)
    qed
    with False show ?thesis by simp
  qed
qed

lemma argmax_row_first_maximum: "row \<noteq> [] \<Longrightarrow> first_maximum row (argmax_row row)"
proof (cases row)
  case Nil
  then show "row \<noteq> [] \<Longrightarrow> ?thesis" by simp
next
  case (Cons x xs)
  have "first_maximum ([x] @ xs) (argmax_scan xs 1 0 x)"
    by (rule argmax_scan_first_maximum) simp_all
  with Cons show ?thesis by (simp add: argmax_row_def)
qed

lemma add_votes_shaped:
  assumes "shaped m n scores" and "length row_mask = m"
  shows "\<exists>scores'. add_votes scores row_mask i = Inr scores' \<and> shaped m n scores'"
  using assms by (auto simp: add_votes_def shaped_def dest!: set_zip_leftD)

lemma predict_pair_shaped:
  assumes "shaped (length X) n scores" and "c < length (classifiers self)"
    and "(classifiers self ! c) X = Inr Y" and "length Y = length X"
  shows "\<exists>scores'. predict_pair self X i j (scores, c) = Inr (scores', c + 1)
                  \<and> shaped (length X) n scores'"
proof -
  from add_votes_shaped [OF assms(1), of "map (\<lambda>y. y = 1) Y" i] assms(4)
  obtain s1 where s1: "add_votes scores (map (\<lambda>y. y = 1) Y) i = Inr s1" "shaped (length X) n s1"
    by auto
  from add_votes_shaped [OF s1(2), of "map (\<lambda>y. y = 0) Y" j] assms(4)
  obtain s2 where s2: "add_votes s1 (map (\<lambda>y. y = 0) Y) j = Inr s2" "shaped (length X) n s2"
    by auto
  show ?thesis using assms(2,3) s1 s2 by (simp add: predict_pair_def)
qed

lemma predict_pairs_shaped:
  assumes "shaped (length X) n scores"
    and "c + length ps \<le> length (classifiers self)"
    and "\<forall>k < length ps. \<exists>Y. (classifiers self ! (c + k)) X = Inr Y \<and> length Y = length X"
  shows "\<exists>scores'. for_each ps (\<lambda>(i, j). predict_pair self X i j) (scores, c)
                      = Inr (scores', c + length ps)
                  \<and> shaped (length X) n scores'"
  using assms
proof (induction ps arbitrary: scores c)
  case Nil
  then show ?case by simp
next
  case (Cons p ps)
  obtain i j where p: "p = (i, j)" by (cases p)
  from Cons.prems(3) obtain Y where Y: "(classifiers self ! c) X = Inr Y" "length Y = length X"
    by force
  from Cons.prems(2) have c: "c < length (classifiers self)" by simp
  from predict_pair_shaped [OF Cons.prems(1) c Y, of i j]
  obtain s1 where s1: "predict_pair self X i j (scores, c) = Inr (s1, c + 1)"
    "shaped (length X) n s1" by blast
  have "\<exists>scores'. for_each ps (\<lambda>(i, j). predict_pair self X i j) (s1, c + 1)
                      = Inr (scores', (c + 1) + length ps)
                  \<and> shaped (length X) n scores'"
  proof (rule Cons.IH [OF s1(2)])
    show "c + 1 + length ps \<le> length (classifiers self)" using Cons.prems(2) by simp
    show "\<forall>k<length ps. \<exists>Y. (classifiers self ! (c + 1 + k)) X = Inr Y \<and> length Y = length X"
    proof (intro allI impI)
      fix k assume "k < length ps"
      then have "Suc k < length (p # ps)" by simp
      with Cons.prems(3) have "\<exists>Y. (classifiers self ! (c + Suc k)) X = Inr Y \<and> length Y = length X"
        by blast
      then show "\<exists>Y. (classifiers self ! (c + 1 + k)) X = Inr Y \<and> length Y = length X" by simp
    qed
  qed
  with s1 show ?case by (simp add: p)
qed

lemma predict_scores_shaped:
  assumes "length (algorithms sc) * (length (algorithms sc) - 1) div 2 \<le> length (classifiers self)"
    and "\<forall>k < length (algorithms sc) * (length (algorithms sc) - 1) div 2.
           \<exists>Y. (classifiers self ! k) (map snd (feature_data sc)) = Inr Y
              \<and> length Y = length (feature_data sc)"
  shows "\<exists>scores. predict_scores self sc = Inr scores
               \<and> shaped (length (feature_data sc)) (length (algorithms sc)) scores"
proof -
  let ?X = "map snd (feature_data sc)" and ?n = "length (algorithms sc)"
  have "shaped (length ?X) ?n (replicate (length ?X) (replicate ?n 0))"
    by (simp add: shaped_def)
  from predict_pairs_shaped [OF this, of 0 "canonical_pairs ?n" self] assms
  obtain scores' where
    "for_each (canonical_pairs ?n) (\<lambda>(i, j). predict_pair self ?X i j)
        (replicate (length ?X) (replicate ?n 0), 0) = Inr (scores', 0 + length (canonical_pairs ?n))"
    "shaped (length ?X) ?n scores'"
    by (auto simp: canonical_pairs_length)
  then show ?thesis
    unfolding predict_scores_def Let_def loops_canonical by simp
qed


lemma schedule_pairs_zip:
  "length idx = length names \<Longrightarrow>
   map (\<lambda>(s, inst). (inst, [s])) (zip (map f idx) names) = zip names (map (\<lambda>i. [f i]) idx)"
  by (induction idx names rule: list_induct2) simp_all

lemma predict_result:
  assumes scores: "predict_scores self sc = Inr scores"
    and len: "length scores = length (feature_data sc)"
    and algos: "0 < length (algorithms sc)"
    and names: "distinct (map fst (feature_data sc))"
  shows "PairwiseClassifier_predict self sc
           = Inr (zip (map fst (feature_data sc))
                   (map (\<lambda>row. [(algorithms sc ! argmax_row row, predict_cutoff sc + 1)]) scores))"
proof -
  let ?f = "\<lambda>i. (algorithms sc ! i, predict_cutoff sc + 1)"
  let ?ps = "zip (map fst (feature_data sc)) (map (\<lambda>i. [?f i]) (map argmax_row scores))"
  have "map fst ?ps = map fst (feature_data sc)" using len by simp
  with names have "dict_from_pairs ?ps = ?ps" by (simp only: dict_from_pairs_distinct)
  moreover have "map (\<lambda>(s, inst). (inst, [s]))
            (zip (map ?f (map argmax_row scores)) (map fst (feature_data sc))) = ?ps"
    by (rule schedule_pairs_zip) (simp add: len)
  ultimately show ?thesis
    using scores algos
    by (simp add: PairwiseClassifier_predict_def np_argmax_axis1_def Let_def comp_def)
qed

lemma predict_budget_cutoff: "predict_cutoff sc + 1 = predict_budget sc"
  by (simp add: predict_cutoff_def predict_budget_def split: option.splits)

lemma ex_fit_eval:
  "PairwiseClassifier_fit (PairwiseClassifier_init (Some memorising_class)) (example_scenario\<lparr>maximize := mx\<rparr>) []
    = Inr \<lparr>classifiers = [\<lambda>X'. Inr [1, 0, 0]], classifier_class = Some memorising_class,
           self_algorithms = Some [''A1'', ''A2'']\<rparr>"
  by (simp add: PairwiseClassifier_fit_def PairwiseClassifier_init_def example_scenario_def
       fit_pair_def pair_training_data_def memorising_class_def array_less_def array_abs_diff_def)

lemmas predict_eval_defs =
  PairwiseClassifier_predict_def predict_scores_def predict_pair_def add_votes_def
  np_argmax_axis1_def argmax_row_def predict_cutoff_def dict_from_pairs_def

lemma cyclic_scores_eval: "predict_scores cyclic_selector three_scenario = Inr [[1, 1, 1], [0, 1, 2]]"
  by (simp add: predict_eval_defs cyclic_selector_def three_scenario_def constant_classifier_def
        numeral_3_eq_3)

lemma cyclic_predict_eval:
  "PairwiseClassifier_predict cyclic_selector three_scenario
     = Inr [(''inst1'', [(''A1'', 2147483649)]), (''inst2'', [(''A3'', 2147483649)])]"
  by (simp add: predict_eval_defs cyclic_selector_def three_scenario_def constant_classifier_def
        numeral_3_eq_3)

lemma example_predict_eval:
  "(case PairwiseClassifier_fit (PairwiseClassifier_init (Some memorising_class)) example_scenario [] of
      Inl e \<Rightarrow> False
    | Inr s \<Rightarrow> PairwiseClassifier_predict s example_scenario
                = Inr [(''inst1'', [(''A1'', 201)]), (''inst2'', [(''A2'', 201)]),
                       (''inst3'', [(''A2'', 201)])])"
  using ex_fit_eval [of "[False]"]
  by (simp add: predict_eval_defs example_scenario_def)

text \<open>The entries of the vote matrix are the vote counts.\<close>

lemma add_votes_Inr:
  assumes "add_votes scores row_mask i = Inr scores'"
  shows "length row_mask = length scores"
    and "length scores' = length scores"
    and "r < length scores \<Longrightarrow>
           scores' ! r = (if row_mask ! r then (scores ! r)[i := scores ! r ! i + 1] else scores ! r)"
  using assms by (auto simp: add_votes_def split: if_splits)

lemma add_votes_keeps_shape:
  assumes "add_votes scores row_mask i = Inr scores'" and "shaped m n scores"
  shows "shaped m n scores'"
  using assms by (auto simp: add_votes_def shaped_def split: if_splits dest!: set_zip_leftD)

lemma predict_pair_votes:
  assumes step: "predict_pair self X i j (scores, c) = Inr (scores', c')"
    and Y: "(classifiers self ! c) X = Inr Y"
    and shape: "shaped m n scores"
    and bounds: "r < m" "a < n" "i < n" "j < n"
  shows "shaped m n scores'"
    and "scores' ! r ! a
           = scores ! r ! a + (if (Y ! r = 1 \<and> i = a) \<or> (Y ! r = 0 \<and> j = a) then 1 else 0)"
proof -
  from step Y obtain s1 where
    s1: "add_votes scores (map (\<lambda>y. y = 1) Y) i = Inr s1"
    and s2: "add_votes s1 (map (\<lambda>y. y = 0) Y) j = Inr scores'"
    by (auto simp: predict_pair_def split: if_splits sum.splits)
  have shape1: "shaped m n s1" by (rule add_votes_keeps_shape [OF s1 shape])
  show "shaped m n scores'" by (rule add_votes_keeps_shape [OF s2 shape1])
  from shape bounds have r: "r < length scores" and row: "length (scores ! r) = n"
    by (simp_all add: shaped_def)
  from shape1 bounds have r1: "r < length s1" and row1: "length (s1 ! r) = n"
    by (simp_all add: shaped_def)
  from add_votes_Inr(1) [OF s1] r have rY: "r < length Y" by simp
  have v1: "s1 ! r = (if Y ! r = 1 then (scores ! r)[i := scores ! r ! i + 1] else scores ! r)"
    using add_votes_Inr(3) [OF s1 r] rY by simp
  have v2: "scores' ! r = (if Y ! r = 0 then (s1 ! r)[j := s1 ! r ! j + 1] else s1 ! r)"
    using add_votes_Inr(3) [OF s2 r1] rY by simp
  show "scores' ! r ! a
           = scores ! r ! a + (if (Y ! r = 1 \<and> i = a) \<or> (Y ! r = 0 \<and> j = a) then 1 else 0)"
    using row bounds by (auto simp: v1 v2 nth_list_update)
qed

lemma predict_pairs_votes:
  assumes "for_each ps (\<lambda>(i, j). predict_pair self X i j) (scores, c) = Inr (scores', c')"
    and "shaped m n scores"
    and "\<forall>(i, j) \<in> set ps. i < n \<and> j < n"
    and "\<forall>k < length ps. (classifiers self ! (c + k)) X = Inr (Ys ! (c + k))"
    and "r < m" and "a < n"
  shows "scores' ! r ! a = scores ! r ! a + votes_for Ys (enumerate c ps) r a"
  using assms
proof (induction ps arbitrary: scores c)
  case Nil
  then show ?case by (simp add: votes_for_def)
next
  case (Cons p ps)
  obtain i j where p: "p = (i, j)" by (cases p)
  from Cons.prems(1) obtain st where
    step: "predict_pair self X i j (scores, c) = Inr st"
    and rest: "for_each ps (\<lambda>(i, j). predict_pair self X i j) st = Inr (scores', c')"
    by (auto simp: p split: sum.splits)
  from predict_pair_index [OF step] obtain s1 where st: "st = (s1, c + 1)" by blast
  from Cons.prems(4) have Y: "(classifiers self ! c) X = Inr (Ys ! c)" by force
  from Cons.prems(3) p have ij: "i < n" "j < n" by auto
  note one = predict_pair_votes [OF step [unfolded st] Y Cons.prems(2) Cons.prems(5,6) ij]
  have "scores' ! r ! a = s1 ! r ! a + votes_for Ys (enumerate (c + 1) ps) r a"
  proof (rule Cons.IH [OF rest [unfolded st] one(1)])
    show "\<forall>(i, j) \<in> set ps. i < n \<and> j < n" using Cons.prems(3) by simp
    show "\<forall>k<length ps. (classifiers self ! (c + 1 + k)) X = Inr (Ys ! (c + 1 + k))"
    proof (intro allI impI)
      fix k assume "k < length ps"
      then have "Suc k < length (p # ps)" by simp
      with Cons.prems(4) have "(classifiers self ! (c + Suc k)) X = Inr (Ys ! (c + Suc k))"
        by blast
      then show "(classifiers self ! (c + 1 + k)) X = Inr (Ys ! (c + 1 + k))" by simp
    qed
  qed (rule Cons.prems(5), rule Cons.prems(6))
  with one(2) show ?case by (simp add: p votes_for_def)
qed

lemma predict_scores_votes:
  assumes scores: "predict_scores self sc = Inr scores"
    and Ys: "\<forall>k < length (canonical_pairs (length (algorithms sc))).
               (classifiers self ! k) (map snd (feature_data sc)) = Inr (Ys ! k)"
    and r: "r < length (feature_data sc)" and a: "a < length (algorithms sc)"
  shows "scores ! r ! a
           = votes_for Ys (enumerate 0 (canonical_pairs (length (algorithms sc)))) r a"
proof -
  let ?X = "map snd (feature_data sc)" and ?n = "length (algorithms sc)"
  let ?zeros = "replicate (length ?X) (replicate ?n (0::nat))"
  from scores obtain c' where
    loop: "for_each (canonical_pairs ?n) (\<lambda>(i, j). predict_pair self ?X i j) (?zeros, 0)
             = Inr (scores, c')"
    unfolding predict_scores_def Let_def loops_canonical
    by (auto split: sum.splits)
  have shape: "shaped (length (feature_data sc)) ?n ?zeros" by (simp add: shaped_def)
  have pairs: "\<forall>(i, j) \<in> set (canonical_pairs ?n). i < ?n \<and> j < ?n"
    by (auto simp: canonical_pairs_set)
  from Ys have Ys': "\<forall>k < length (canonical_pairs ?n).
      (classifiers self ! (0 + k)) ?X = Inr (Ys ! (0 + k))" by simp
  from predict_pairs_votes [OF loop shape pairs Ys' r a] r a show ?thesis by simp
qed

section \<open>Facts about the AutoFolio class\<close>

lemma for_each_raise:
  assumes "for_each xs body s = Inr s'" and "body x s' = Inl e"
  shows "for_each (xs @ x # ys) body s = Inl e"
  using assms by (simp add: for_each_append)

text \<open>An exception in fold \<open>i\<close> ends the loop: the \<open>try\<close> block raises it.\<close>

lemma run_cv_try_raises:
  assumes init: "cv_initial_stat ext scenario = Inr st0"
    and before: "for_each [1..i - 1] (cv_fold ext self config scenario) st0 = Inr st"
    and raised: "cv_fold ext self config scenario i st = Inl e"
    and i: "1 \<le> i" "i \<le> folds"
  shows "run_cv_try ext self config scenario folds = Inl e"
proof -
  from i have "[1..folds] = [1..i - 1] @ i # [i + 1..folds]"
    by (rule upto_split3)
  with for_each_raise [OF before raised, of "[i + 1..folds]"]
  have "for_each [1..folds] (cv_fold ext self config scenario) st0 = Inl e"
    by simp
  with init show ?thesis by (simp add: run_cv_try_def)
qed

text \<open>
  After a \<open>ValueError\<close> in the \<open>try\<close> block the handler sets the penalty, and the
  last statement of \<open>run_cv\<close> flips its sign again when the scenario maximises.
\<close>

lemma run_cv_after_value_error:
  assumes "run_cv_try ext self config scenario folds = Inl ValueError"
    and "maximize scenario = m # ms"
    and "algorithm_cutoff_time scenario = Some c"
  shows "run_cv_except scenario = Inr (if m then c * - 10 else c * 10)"
    and "run_cv ext self config scenario folds = Inr (c * 10)"
  using assms by (simp_all add: run_cv_def run_cv_except_def)

text \<open>
  A performance type that is neither \<open>runtime\<close> nor \<open>solution_quality\<close> raises
  \<open>ValueError\<close> in the first fold that gets as far as the validation.
\<close>

lemma unknown_performance_type_raises:
  assumes "get_split ext scenario i = Inr (test_scenario, training_scenario)"
    and "AutoFolio_fit ext self training_scenario config = Inr (pipeline, pre_solver, selector)"
    and "AutoFolio_predict test_scenario config pipeline pre_solver selector = Inr schedules"
    and "performance_type scenario = pt # pts"
    and "pt \<noteq> ''runtime''" and "pt \<noteq> ''solution_quality''"
  shows "cv_fold ext self config scenario i cv_stat = Inl ValueError"
  using assms by (simp add: cv_fold_def)

lemma fit_selector_example:
  "fit_selector example_externals (accuracy_scenario mx) example_config
     = Inr \<lparr>classifiers = [\<lambda>X'. Inr [1, 0, 0]], classifier_class = Some memorising_class,
           self_algorithms = Some [''A1'', ''A2'']\<rparr>"
  by (simp add: fit_selector_def example_config_def config_get_def dict_get_def
      example_externals_def accuracy_scenario_def PairwiseClassifier_fit_def fit_pair_def
      pair_training_data_def PairwiseClassifier_init_def example_scenario_def
      memorising_class_def array_less_def array_abs_diff_def)

lemma identity_pipeline:
  "fit_transform_feature_preprocessing example_externals sc config
     = Inr (sc, [\<lambda>sc. Inr sc, \<lambda>sc. Inr sc, \<lambda>sc. Inr sc, \<lambda>sc. Inr sc])"
  by (simp add: fit_transform_feature_preprocessing_def example_externals_def identity_stage_def)

lemma accuracy_fit:
  "AutoFolio_fit example_externals fresh_autofolio (accuracy_scenario mx) example_config
     = Inr ([\<lambda>sc. Inr sc, \<lambda>sc. Inr sc, \<lambda>sc. Inr sc, \<lambda>sc. Inr sc], None,
            \<lparr>classifiers = [\<lambda>X'. Inr [1, 0, 0]], classifier_class = Some memorising_class,
             self_algorithms = Some [''A1'', ''A2'']\<rparr>)"
proof -
  have "fit_pre_solving example_externals (accuracy_scenario mx) example_config = Inr None"
    by (simp add: fit_pre_solving_def accuracy_scenario_def)
  then show ?thesis
    by (simp add: AutoFolio_fit_def identity_pipeline fit_selector_example fresh_autofolio_def)
qed

lemma accuracy_predict:
  "AutoFolio_predict (accuracy_scenario mx) example_config
      [\<lambda>sc. Inr sc, \<lambda>sc. Inr sc, \<lambda>sc. Inr sc, \<lambda>sc. Inr sc] None
      \<lparr>classifiers = [\<lambda>X'. Inr [1, 0, 0]], classifier_class = Some memorising_class,
             self_algorithms = Some [''A1'', ''A2'']\<rparr>
     = Inr [(''inst1'', [(''A1'', 201)]), (''inst2'', [(''A2'', 201)]),
                       (''inst3'', [(''A2'', 201)])]"
  by (simp add: AutoFolio_predict_def combine_schedules_def predict_eval_defs
        accuracy_scenario_def example_scenario_def)

lemma accuracy_fold_raises:
  "cv_fold example_externals fresh_autofolio example_config (accuracy_scenario mx) 1 0
     = Inl ValueError"
proof (rule unknown_performance_type_raises)
  show "get_split example_externals (accuracy_scenario mx) 1
          = Inr (accuracy_scenario mx, accuracy_scenario mx)"
    by (simp add: example_externals_def)
  show "AutoFolio_fit example_externals fresh_autofolio (accuracy_scenario mx) example_config
     = Inr ([\<lambda>sc. Inr sc, \<lambda>sc. Inr sc, \<lambda>sc. Inr sc, \<lambda>sc. Inr sc], None,
            \<lparr>classifiers = [\<lambda>X'. Inr [1, 0, 0]], classifier_class = Some memorising_class,
             self_algorithms = Some [''A1'', ''A2'']\<rparr>)"
    by (rule accuracy_fit)
  show "AutoFolio_predict (accuracy_scenario mx) example_config
      [\<lambda>sc. Inr sc, \<lambda>sc. Inr sc, \<lambda>sc. Inr sc, \<lambda>sc. Inr sc] None
      \<lparr>classifiers = [\<lambda>X'. Inr [1, 0, 0]], classifier_class = Some memorising_class,
             self_algorithms = Some [''A1'', ''A2'']\<rparr>
     = Inr [(''inst1'', [(''A1'', 201)]), (''inst2'', [(''A2'', 201)]),
                       (''inst3'', [(''A2'', 201)])]"
    by (rule accuracy_predict)
  show "performance_type (accuracy_scenario mx) = [''accuracy'']"
    by (simp add: accuracy_scenario_def)
qed simp_all

lemma accuracy_scenario_fields:
  "cv_initial_stat example_externals (accuracy_scenario mx) = Inr 0"
  "maximize (accuracy_scenario mx) = [mx]"
  "algorithm_cutoff_time (accuracy_scenario mx) = Some 200"
  by (simp_all add: cv_initial_stat_def accuracy_scenario_def example_externals_def
        example_scenario_def)

lemma map_of_dict_set: "map_of (dict_set k v d) = (map_of d)(k \<mapsto> v)"
  by (induction d) (auto simp: fun_eq_iff)

lemma overwrite_step_falsy:
  assumes "overwrite_step ext self (p, v) (d, w) = Inr (d', w')"
    and "\<not> truthy (dict_get d param PNone)"
  shows "map_of d' param = map_of d param \<and> set w \<subseteq> set w'
       \<and> (p = param \<longrightarrow> unknown_parameter_warning p v \<in> set w')"
proof (cases "truthy (dict_get d p PNone)")
  case True
  with assms(2) have "p \<noteq> param" by auto
  with assms(1) True show ?thesis
    by (auto simp: overwrite_step_def map_of_dict_set split: sum.splits if_splits)
next
  case False
  with assms(1) show ?thesis by (auto simp: overwrite_step_def)
qed

lemma overwrite_loop_falsy:
  assumes "for_each ps (overwrite_step ext self) (d, w) = Inr (d', w')"
    and "\<not> truthy (dict_get d param PNone)"
  shows "map_of d' param = map_of d param \<and> set w \<subseteq> set w'
       \<and> (\<forall>v. (param, v) \<in> set ps \<longrightarrow> unknown_parameter_warning param v \<in> set w')"
  using assms
proof (induction ps arbitrary: d w)
  case Nil
  then show ?case by simp
next
  case (Cons pv ps)
  obtain p v where pv: "pv = (p, v)" by (cases pv)
  from Cons.prems(1) obtain d1 w1 where
    step: "overwrite_step ext self (p, v) (d, w) = Inr (d1, w1)"
    and rest: "for_each ps (overwrite_step ext self) (d1, w1) = Inr (d', w')"
    by (auto simp: pv split: sum.splits)
  from overwrite_step_falsy [OF step Cons.prems(2)]
  have s1: "map_of d1 param = map_of d param" "set w \<subseteq> set w1"
    "p = param \<longrightarrow> unknown_parameter_warning p v \<in> set w1"
    by simp_all
  from s1(1) Cons.prems(2) have "\<not> truthy (dict_get d1 param PNone)"
    by (simp add: dict_get_def)
  from Cons.IH [OF rest this]
  have s2: "map_of d' param = map_of d1 param" "set w1 \<subseteq> set w'"
    "\<forall>v. (param, v) \<in> set ps \<longrightarrow> unknown_parameter_warning param v \<in> set w'"
    by simp_all
  from s1 s2 show ?case by (auto simp: pv)
qed

lemma overwrite_example:
  "overwrite_configuration example_externals tuned_autofolio
      [(''pca'', PBool False), (''n_trees'', PInt 5)] [''pca'', ''True'', ''n_trees'', ''7'']
     = Inr ([(''pca'', PBool False), (''n_trees'', PInt 7)],
            [''Unknown given parameter: pca True'', ''Unknown given parameter: True n_trees''])"
  by (simp add: overwrite_configuration_def pairwise_def overwrite_step_def dict_get_def
        get_hyperparameter_def tuned_autofolio_def example_externals_def
        unknown_parameter_warning_def)

text \<open>
  What \<open>predict\<close> does without reading the list recorded by \<open>fit\<close>: with a
  classifier for each pair it selects by position, and with fewer classifiers than pairs
  the read of \<open>self.classifiers[clf_indx]\<close> raises \<open>IndexError\<close>.
\<close>

lemma predict_without_fit_algorithms:
  "predict_scores (self\<lparr>self_algorithms := a\<rparr>) sc = predict_scores self sc"
  "PairwiseClassifier_predict (self\<lparr>self_algorithms := a\<rparr>) sc
     = PairwiseClassifier_predict self sc"
proof -
  have "predict_pair (self\<lparr>self_algorithms := a\<rparr>) = predict_pair self"
    by (intro ext) (simp add: predict_pair_def split: prod.splits)
  then show "predict_scores (self\<lparr>self_algorithms := a\<rparr>) sc = predict_scores self sc"
    by (simp add: predict_scores_def)
  then show "PairwiseClassifier_predict (self\<lparr>self_algorithms := a\<rparr>) sc
     = PairwiseClassifier_predict self sc"
    by (simp add: PairwiseClassifier_predict_def)
qed

lemma predict_positional:
  assumes algos: "0 < length (algorithms sc)"
    and fitted: "length (algorithms sc) * (length (algorithms sc) - 1) div 2
                   \<le> length (classifiers self)"
    and preds: "\<forall>k < length (algorithms sc) * (length (algorithms sc) - 1) div 2.
                  \<exists>Y. (classifiers self ! k) (map snd (feature_data sc)) = Inr Y
                     \<and> length Y = length (feature_data sc)"
    and names: "distinct (map fst (feature_data sc))"
  shows "\<exists>scores schedules.
           predict_scores self sc = Inr scores
         \<and> PairwiseClassifier_predict self sc = Inr schedules
         \<and> map fst schedules = map fst (feature_data sc)
         \<and> (\<forall>r < length (feature_data sc). \<exists>k.
               first_maximum (scores ! r) k
             \<and> k < length (algorithms sc)
             \<and> map_of schedules (fst (feature_data sc ! r))
                 = Some [(algorithms sc ! k, predict_budget sc)])"
proof -
  from predict_scores_shaped [OF fitted preds] obtain scores where
    scores: "predict_scores self sc = Inr scores"
    and shape: "shaped (length (feature_data sc)) (length (algorithms sc)) scores"
    by blast
  from shape have len: "length scores = length (feature_data sc)"
    by (simp add: shaped_def)
  let ?sched = "zip (map fst (feature_data sc))
                   (map (\<lambda>row. [(algorithms sc ! argmax_row row, predict_cutoff sc + 1)]) scores)"
  have res: "PairwiseClassifier_predict self sc = Inr ?sched"
    by (rule predict_result [OF scores len algos names])
  have keys: "map fst ?sched = map fst (feature_data sc)" using len by simp
  have each: "\<exists>k. first_maximum (scores ! r) k \<and> k < length (algorithms sc)
             \<and> map_of ?sched (fst (feature_data sc ! r))
                 = Some [(algorithms sc ! k, predict_budget sc)]"
    if r: "r < length (feature_data sc)" for r
  proof -
    from r len shape have row: "length (scores ! r) = length (algorithms sc)"
      by (simp add: shaped_def)
    with algos have "scores ! r \<noteq> []" by auto
    then have fm: "first_maximum (scores ! r) (argmax_row (scores ! r))"
      by (rule argmax_row_first_maximum)
    then have bound: "argmax_row (scores ! r) < length (algorithms sc)"
      using row by (simp add: first_maximum_def)
    have "map_of ?sched (map fst (feature_data sc) ! r)
            = Some (map (\<lambda>row. [(algorithms sc ! argmax_row row, predict_cutoff sc + 1)]) scores ! r)"
      by (rule map_of_zip_nth) (use len names r in simp_all)
    with r len have "map_of ?sched (fst (feature_data sc ! r))
            = Some [(algorithms sc ! argmax_row (scores ! r), predict_budget sc)]"
      by (simp add: predict_budget_cutoff)
    with fm bound show ?thesis by blast
  qed
  then have all: "\<forall>r < length (feature_data sc). \<exists>k.
               first_maximum (scores ! r) k
             \<and> k < length (algorithms sc)
             \<and> map_of ?sched (fst (feature_data sc ! r))
                 = Some [(algorithms sc ! k, predict_budget sc)]"
    by blast
  show ?thesis
    by (rule exI [of _ scores], rule exI [of _ ?sched]) (intro conjI scores res keys all)
qed

lemma predict_too_few_classifiers:
  assumes few: "length (classifiers self)
                  < length (algorithms sc) * (length (algorithms sc) - 1) div 2"
    and preds: "\<forall>k < length (classifiers self).
                  \<exists>Y. (classifiers self ! k) (map snd (feature_data sc)) = Inr Y
                     \<and> length Y = length (feature_data sc)"
  shows "predict_scores self sc = Inl IndexError"
    and "PairwiseClassifier_predict self sc = Inl IndexError"
proof -
  let ?X = "map snd (feature_data sc)" and ?n = "length (algorithms sc)"
  let ?ps = "canonical_pairs ?n" and ?L = "length (classifiers self)"
  let ?body = "\<lambda>(i, j). predict_pair self ?X i j"
  let ?zeros = "replicate (length ?X) (replicate ?n (0::nat))"
  from few have L: "?L < length ?ps" by (simp add: canonical_pairs_length)
  then have split: "?ps = take ?L ?ps @ (?ps ! ?L) # drop (Suc ?L) ?ps"
    by (rule id_take_nth_drop)
  have shape: "shaped (length ?X) ?n ?zeros" by (simp add: shaped_def)
  have lenT: "length (take ?L ?ps) = ?L" using L by simp
  have "\<exists>scores'. for_each (take ?L ?ps) ?body (?zeros, 0)
                      = Inr (scores', 0 + length (take ?L ?ps))
                  \<and> shaped (length ?X) ?n scores'"
  proof (rule predict_pairs_shaped [OF shape])
    show "0 + length (take ?L ?ps) \<le> length (classifiers self)" using lenT by simp
    show "\<forall>k<length (take ?L ?ps). \<exists>Y. (classifiers self ! (0 + k)) ?X = Inr Y
             \<and> length Y = length ?X"
      using preds lenT by simp
  qed
  then obtain scores' where
    before: "for_each (take ?L ?ps) ?body (?zeros, 0) = Inr (scores', ?L)"
    using lenT by auto
  have raised: "?body (?ps ! ?L) (scores', ?L) = Inl IndexError"
    by (cases "?ps ! ?L") (simp add: predict_pair_def)
  from for_each_raise [OF before raised, of "drop (Suc ?L) ?ps"] split
  have "for_each ?ps ?body (?zeros, 0) = Inl IndexError" by simp
  then show scores: "predict_scores self sc = Inl IndexError"
    unfolding predict_scores_def Let_def loops_canonical by simp
  then show "PairwiseClassifier_predict self sc = Inl IndexError"
    by (simp add: PairwiseClassifier_predict_def)
qed

section \<open>The schedule combiner\<close>

text \<open>
  C5. Combining an empty pre-solving schedule with a selector schedule returns the
  selector schedule itself: the very same dictionary, with no entry rebuilt.
\<close>

theorem combine_empty_presolving: "combine_schedules [] S = S"
  by (simp add: combine_schedules_def)

text \<open>
  C6. With a pre-solving schedule that is not empty, the combined dictionary has the
  keys of the selector schedule, in the same order, and each instance of the selector
  schedule is mapped to the pre-solving entries of that instance, in their order,
  followed by the selector's entries; an instance the pre-solving schedule does not
  know gets the empty prefix, and no error is raised (the combiner is a total function).
\<close>

theorem combine_prepends_presolving:
  assumes "pre \<noteq> []" and "distinct (map fst S)" and "map_of S inst = Some schedule"
  shows "map fst (combine_schedules pre S) = map fst S
       \<and> map_of (combine_schedules pre S) inst
           = Some ((case map_of pre inst of None \<Rightarrow> [] | Some p \<Rightarrow> p) @ schedule)"
proof -
  let ?f = "\<lambda>inst schedule. dict_get pre inst [] @ schedule"
  have "distinct (map fst (map (\<lambda>(k, v). (k, ?f k v)) S))"
    using assms(2) by (simp only: map_fst_entries)
  then have eq: "combine_schedules pre S = map (\<lambda>(k, v). (k, ?f k v)) S"
    using assms(1) by (simp add: combine_schedules_def dict_from_pairs_distinct)
  show ?thesis
    unfolding eq using assms(3)
    by (simp only: map_fst_entries map_of_entries) (simp add: dict_get_def)
qed

theorem combine_prepends_presolving_witness:
  "map_of (combine_schedules [(''i1'', [(''a'', 5)])]
             [(''i1'', [(''b'', 101)]), (''i2'', [(''c'', 101)])]) ''i1''
     = Some [(''a'', 5), (''b'', 101)]
   \<and> map_of (combine_schedules [(''i1'', [(''a'', 5)])]
             [(''i1'', [(''b'', 101)]), (''i2'', [(''c'', 101)])]) ''i2''
     = Some [(''c'', 101)]"
  using combine_prepends_presolving [of "[(''i1'', [(''a'', 5)])]"
          "[(''i1'', [(''b'', 101)]), (''i2'', [(''c'', 101)])]" "''i1''" "[(''b'', 101)]"]
        combine_prepends_presolving [of "[(''i1'', [(''a'', 5)])]"
          "[(''i1'', [(''b'', 101)]), (''i2'', [(''c'', 101)])]" "''i2''" "[(''c'', 101)]"]
  by simp

section \<open>Fitting the pairwise classifier\<close>

text \<open>
  C1, as the code has it. For every pair \<open>(i, j)\<close> with \<open>i < j\<close>, in the order of the
  loops, the classifier of the pair is fitted on a label vector with one label for each
  instance, and the label is true (1) exactly when the performance value of algorithm
  \<open>i\<close> is strictly smaller than that of algorithm \<open>j\<close> on the instance, and false (0)
  otherwise. The scenario's \<open>maximize\<close> flag is not read: \<open>fit\<close> does the same
  whatever the flag is set to.
\<close>

theorem fit_labels_compare_values:
  assumes cls: "classifier_class self = Some cls"
    and cols: "\<forall>a \<in> set (algorithms sc). \<exists>col. performance_data sc a = Some col \<and> length col = m"
    and total: "\<forall>y w. \<exists>clf. cls (map snd (feature_data sc)) y config w = Inr clf"
  shows "\<exists>cs. PairwiseClassifier_fit self (sc\<lparr>maximize := mx\<rparr>) config
                 = Inr (self\<lparr>self_algorithms := Some (algorithms sc),
                              classifiers := classifiers self @ cs\<rparr>)
             \<and> list_all2 (\<lambda>(i, j) clf. \<exists>y w y_i y_j.
                    performance_data sc (algorithms sc ! i) = Some y_i
                  \<and> performance_data sc (algorithms sc ! j) = Some y_j
                  \<and> cls (map snd (feature_data sc)) y config w = Inr clf
                  \<and> length y = m
                  \<and> (\<forall>r < m. y ! r = (y_i ! r < y_j ! r)))
                  (canonical_pairs (length (algorithms sc))) cs"
proof -
  have ok: "\<exists>y w clf. pair_training_data sc i j = Inr (y, w)
                        \<and> cls (map snd (feature_data sc)) y config w = Inr clf"
    if "i < j" "j < length (algorithms sc)" for i j
  proof -
    from that cols obtain y_i y_j where
      "performance_data sc (algorithms sc ! i) = Some y_i"
      "performance_data sc (algorithms sc ! j) = Some y_j"
      by (meson less_trans nth_mem)
    then show ?thesis using total by (simp add: pair_training_data_cols)
  qed
  from fit_characterisation [OF cls ok] obtain cs where
    fit: "PairwiseClassifier_fit self sc config
                 = Inr (self\<lparr>self_algorithms := Some (algorithms sc),
                              classifiers := classifiers self @ cs\<rparr>)"
    and all: "list_all2 (\<lambda>(i, j) clf. \<exists>y w. pair_training_data sc i j = Inr (y, w)
                        \<and> cls (map snd (feature_data sc)) y config w = Inr clf)
                  (canonical_pairs (length (algorithms sc))) cs"
    by blast
  have "list_all2 (\<lambda>(i, j) clf. \<exists>y w y_i y_j.
                    performance_data sc (algorithms sc ! i) = Some y_i
                  \<and> performance_data sc (algorithms sc ! j) = Some y_j
                  \<and> cls (map snd (feature_data sc)) y config w = Inr clf
                  \<and> length y = m
                  \<and> (\<forall>r < m. y ! r = (y_i ! r < y_j ! r)))
                  (canonical_pairs (length (algorithms sc))) cs"
  proof (rule list.rel_mono_strong [OF all])
    fix p clf
    assume p: "p \<in> set (canonical_pairs (length (algorithms sc)))"
      and h: "(case p of (i, j) \<Rightarrow> \<lambda>clf. \<exists>y w. pair_training_data sc i j = Inr (y, w)
                        \<and> cls (map snd (feature_data sc)) y config w = Inr clf) clf"
    obtain i j where pij: "p = (i, j)" by (cases p)
    from p pij have ij: "i < j" "j < length (algorithms sc)" by (simp_all add: canonical_pairs_set)
    from ij cols obtain y_i y_j where
      yi: "performance_data sc (algorithms sc ! i) = Some y_i" "length y_i = m" and
      yj: "performance_data sc (algorithms sc ! j) = Some y_j" "length y_j = m"
      by (meson less_trans nth_mem)
    from h pij obtain y w where
      "pair_training_data sc i j = Inr (y, w)" "cls (map snd (feature_data sc)) y config w = Inr clf"
      by auto
    with yi yj have "y = array_less y_i y_j" by (simp add: pair_training_data_cols)
    with yi yj \<open>cls (map snd (feature_data sc)) y config w = Inr clf\<close>
    show "(case p of (i, j) \<Rightarrow> \<lambda>clf. \<exists>y w y_i y_j.
                    performance_data sc (algorithms sc ! i) = Some y_i
                  \<and> performance_data sc (algorithms sc ! j) = Some y_j
                  \<and> cls (map snd (feature_data sc)) y config w = Inr clf
                  \<and> length y = m
                  \<and> (\<forall>r < m. y ! r = (y_i ! r < y_j ! r))) clf"
      unfolding pij by (auto simp: array_less_def)
  qed
  with fit show ?thesis by (auto simp: fit_ignores_maximize)
qed

theorem fit_labels_compare_values_witness:
  "\<exists>cs. PairwiseClassifier_fit (PairwiseClassifier_init (Some memorising_class))
           (example_scenario\<lparr>maximize := [True]\<rparr>) []
         = Inr ((PairwiseClassifier_init (Some memorising_class))
                 \<lparr>self_algorithms := Some (algorithms example_scenario),
                  classifiers := classifiers (PairwiseClassifier_init (Some memorising_class)) @ cs\<rparr>)
     \<and> list_all2 (\<lambda>(i, j) clf. \<exists>y w y_i y_j.
                    performance_data example_scenario (algorithms example_scenario ! i) = Some y_i
                  \<and> performance_data example_scenario (algorithms example_scenario ! j) = Some y_j
                  \<and> memorising_class (map snd (feature_data example_scenario)) y [] w = Inr clf
                  \<and> length y = 3
                  \<and> (\<forall>r < 3. y ! r = (y_i ! r < y_j ! r)))
                  (canonical_pairs (length (algorithms example_scenario))) cs"
proof (rule fit_labels_compare_values)
  show "classifier_class (PairwiseClassifier_init (Some memorising_class)) = Some memorising_class"
    by (simp add: PairwiseClassifier_init_def)
  show "\<forall>a \<in> set (algorithms example_scenario).
          \<exists>col. performance_data example_scenario a = Some col \<and> length col = 3"
    by (simp add: example_scenario_def)
  show "\<forall>y w. \<exists>clf. memorising_class (map snd (feature_data example_scenario)) y [] w = Inr clf"
    by (simp add: memorising_class_def)
qed

text \<open>
  The claim as the specification words it fails when the scenario maximises: on the
  example scenario with the flag set, the labels of the pair \<open>(A1, A2)\<close> are
  \<open>[1, 0, 0]\<close>, while "strictly better under the scenario's convention" gives
  \<open>[0, 1, 0]\<close>.
\<close>

theorem fit_labels_maximize_counterexample:
  "pair_training_data (example_scenario\<lparr>maximize := [True]\<rparr>) 0 1
     = Inr ([True, False, False], [99, 99, 0])
   \<and> spec_label_vector True [1, 100, 50] [100, 1, 50] = [False, True, False]"
  by (simp add: pair_training_data_def example_scenario_def array_less_def array_abs_diff_def
        spec_label_vector_def spec_strictly_better_def)

text \<open>
  C3. When the classifier class is set, every algorithm has a performance column and the
  class fits without raising, \<open>fit\<close> returns normally, and it appends exactly
  \<open>A * (A - 1) / 2\<close> classifiers to the ones the selector already holds: one for each
  pair of \<open>canonical_pairs A\<close>, in that order, fitted on the feature matrix, the labels
  \<open>y_i < y_j\<close> and the weights \<open>|y_i - y_j|\<close> of the pair. The pairs of
  \<open>canonical_pairs A\<close> are exactly the pairs \<open>i < j < A\<close>, in ascending lexicographic
  order. \<open>predict\<close> walks the same list: at the pair number \<open>k\<close> of the list its
  loop body runs with \<open>clf_indx = k\<close>, so it reads \<open>self.classifiers[k]\<close>.
\<close>

theorem fit_one_classifier_per_pair:
  assumes cls: "classifier_class self = Some cls"
    and cols: "\<forall>a \<in> set (algorithms sc). performance_data sc a \<noteq> None"
    and total: "\<forall>y w. \<exists>clf. cls (map snd (feature_data sc)) y config w = Inr clf"
  shows "(\<exists>cs. PairwiseClassifier_fit self sc config
                 = Inr (self\<lparr>self_algorithms := Some (algorithms sc),
                              classifiers := classifiers self @ cs\<rparr>)
             \<and> length cs = length (algorithms sc) * (length (algorithms sc) - 1) div 2
             \<and> list_all2 (\<lambda>(i, j) clf. \<exists>y_i y_j.
                    performance_data sc (algorithms sc ! i) = Some y_i
                  \<and> performance_data sc (algorithms sc ! j) = Some y_j
                  \<and> cls (map snd (feature_data sc)) (map (\<lambda>(a, b). a < b) (zip y_i y_j)) config
                         (map (\<lambda>(a, b). \<bar>a - b\<bar>) (zip y_i y_j)) = Inr clf)
                  (canonical_pairs (length (algorithms sc))) cs)
       \<and> set (canonical_pairs (length (algorithms sc)))
            = {(i, j). i < j \<and> j < length (algorithms sc)}
       \<and> sorted_wrt pair_less (canonical_pairs (length (algorithms sc)))
       \<and> (\<forall>self' sc'. predict_scores self' sc' =
            (case for_each (enumerate 0 (canonical_pairs (length (algorithms sc'))))
                    (\<lambda>(k, (i, j)) st.
                        predict_pair self' (map snd (feature_data sc')) i j (fst st, k))
                    (replicate (length (feature_data sc'))
                       (replicate (length (algorithms sc')) 0), 0) of
               Inl e \<Rightarrow> Inl e
             | Inr st \<Rightarrow> Inr (fst st)))"
proof -
  have ok: "\<exists>y w clf. pair_training_data sc i j = Inr (y, w)
                        \<and> cls (map snd (feature_data sc)) y config w = Inr clf"
    if "i < j" "j < length (algorithms sc)" for i j
  proof -
    from that cols obtain y_i y_j where
      "performance_data sc (algorithms sc ! i) = Some y_i"
      "performance_data sc (algorithms sc ! j) = Some y_j"
      by (metis less_trans nth_mem not_None_eq)
    then show ?thesis using total by (simp add: pair_training_data_cols)
  qed
  from fit_characterisation [OF cls ok] obtain cs where
    fit: "PairwiseClassifier_fit self sc config
                 = Inr (self\<lparr>self_algorithms := Some (algorithms sc),
                              classifiers := classifiers self @ cs\<rparr>)"
    and all: "list_all2 (\<lambda>(i, j) clf. \<exists>y w. pair_training_data sc i j = Inr (y, w)
                        \<and> cls (map snd (feature_data sc)) y config w = Inr clf)
                  (canonical_pairs (length (algorithms sc))) cs"
    by blast
  from all have len: "length cs = length (algorithms sc) * (length (algorithms sc) - 1) div 2"
    by (simp add: list_all2_lengthD [symmetric] canonical_pairs_length)
  have each: "list_all2 (\<lambda>(i, j) clf. \<exists>y_i y_j.
                    performance_data sc (algorithms sc ! i) = Some y_i
                  \<and> performance_data sc (algorithms sc ! j) = Some y_j
                  \<and> cls (map snd (feature_data sc)) (map (\<lambda>(a, b). a < b) (zip y_i y_j)) config
                         (map (\<lambda>(a, b). \<bar>a - b\<bar>) (zip y_i y_j)) = Inr clf)
                  (canonical_pairs (length (algorithms sc))) cs"
  proof (rule list_all2_mono [OF all])
    fix p clf
    assume h: "(case p of (i, j) \<Rightarrow> \<lambda>clf. \<exists>y w. pair_training_data sc i j = Inr (y, w)
                        \<and> cls (map snd (feature_data sc)) y config w = Inr clf) clf"
    obtain i j where pij: "p = (i, j)" by (cases p)
    from h show "(case p of (i, j) \<Rightarrow> \<lambda>clf. \<exists>y_i y_j.
                    performance_data sc (algorithms sc ! i) = Some y_i
                  \<and> performance_data sc (algorithms sc ! j) = Some y_j
                  \<and> cls (map snd (feature_data sc)) (map (\<lambda>(a, b). a < b) (zip y_i y_j)) config
                         (map (\<lambda>(a, b). \<bar>a - b\<bar>) (zip y_i y_j)) = Inr clf) clf"
      unfolding pij
      by (auto simp: pair_training_data_def array_less_def array_abs_diff_def
               split: option.splits)
  qed
  from fit len each show ?thesis
    by (simp only: canonical_pairs_set canonical_pairs_sorted predict_scores_walk [symmetric])
       blast
qed

theorem fit_one_classifier_per_pair_witness:
  "(case PairwiseClassifier_fit (PairwiseClassifier_init (Some memorising_class)) three_scenario [] of
      Inl e \<Rightarrow> False
    | Inr s \<Rightarrow> length (classifiers s) = 3
              \<and> map (\<lambda>clf. clf []) (classifiers s) = [Inr [1, 0], Inr [1, 1], Inr [0, 1]])
   \<and> canonical_pairs 3 = [(0, 1), (0, 2), (1, 2)]"
proof -
  have h1: "classifier_class (PairwiseClassifier_init (Some memorising_class))
              = Some memorising_class"
    by (simp add: PairwiseClassifier_init_def)
  have h2: "\<forall>a \<in> set (algorithms three_scenario). performance_data three_scenario a \<noteq> None"
    by (simp add: three_scenario_def)
  have h3: "\<forall>y w. \<exists>clf. memorising_class (map snd (feature_data three_scenario)) y [] w = Inr clf"
    by (simp add: memorising_class_def)
  have pairs: "canonical_pairs 3 = [(0, 1), (0, 2), (1, 2)]"
    by (simp add: canonical_pairs_def numeral_3_eq_3)
  from fit_one_classifier_per_pair [OF h1 h2 h3] pairs show ?thesis
    by (simp add: three_fit_eval)
qed

text \<open>
  C7, as the code has it. \<open>fit\<close> has no check of the number of algorithms: with fewer
  than two algorithms the loops have no pair to visit, and \<open>fit\<close> returns normally,
  having recorded the algorithm list and fitted nothing.
\<close>

theorem fit_without_pairs:
  assumes "length (algorithms sc) < 2"
  shows "PairwiseClassifier_fit self sc config = Inr (self\<lparr>self_algorithms := Some (algorithms sc)\<rparr>)"
proof -
  from assms have "length (canonical_pairs (length (algorithms sc))) = 0"
    unfolding canonical_pairs_length
    by (cases "length (algorithms sc)") auto
  then have "canonical_pairs (length (algorithms sc)) = []" by simp
  then show ?thesis
    unfolding PairwiseClassifier_fit_def Let_def loops_canonical by simp
qed

theorem fit_without_pairs_witness:
  "PairwiseClassifier_fit (PairwiseClassifier_init None) (example_scenario\<lparr>algorithms := []\<rparr>) []
     = Inr \<lparr>classifiers = [], classifier_class = None, self_algorithms = Some []\<rparr>"
  using fit_without_pairs [of "example_scenario\<lparr>algorithms := []\<rparr>" "PairwiseClassifier_init None" "[]"]
  by (simp add: PairwiseClassifier_init_def)

text \<open>
  With one algorithm, and even with no classifier class, \<open>fit\<close> raises nothing.
\<close>

theorem fit_single_algorithm_counterexample:
  "PairwiseClassifier_fit (PairwiseClassifier_init None) (example_scenario\<lparr>algorithms := [''A1'']\<rparr>) []
     = Inr \<lparr>classifiers = [], classifier_class = None, self_algorithms = Some [''A1'']\<rparr>"
  by (simp add: PairwiseClassifier_fit_def PairwiseClassifier_init_def example_scenario_def)

section \<open>Predicting with the pairwise classifier\<close>

text \<open>
  C2. For a scenario with at least one algorithm and distinct instance names, and a
  selector that holds a classifier for each pair, each predicting one label for each
  instance, \<open>predict\<close> returns a dictionary whose keys are the instance names, in
  order. The entry of the vote matrix for an instance and an algorithm is the number of
  pairs whose classifier votes for that algorithm on that instance. Each instance is
  mapped to a schedule with the single entry (algorithm, budget): the algorithm is the
  one at the index of the first maximum of the instance's row of the vote matrix, so ties
  go to the lowest index, and the budget is the cutoff plus one when the scenario has a
  cutoff (neither \<open>None\<close> nor zero), and \<open>2**31 + 1\<close> otherwise.
\<close>

theorem predict_selects_first_maximum:
  assumes algos: "0 < length (algorithms sc)"
    and fitted: "length (algorithms sc) * (length (algorithms sc) - 1) div 2
                   \<le> length (classifiers self)"
    and preds: "\<forall>k < length (algorithms sc) * (length (algorithms sc) - 1) div 2.
                  \<exists>Y. (classifiers self ! k) (map snd (feature_data sc)) = Inr Y
                     \<and> length Y = length (feature_data sc)"
    and names: "distinct (map fst (feature_data sc))"
  shows "\<exists>scores schedules Ys.
           predict_scores self sc = Inr scores
         \<and> length scores = length (feature_data sc)
         \<and> (\<forall>k < length (algorithms sc) * (length (algorithms sc) - 1) div 2.
                (classifiers self ! k) (map snd (feature_data sc)) = Inr (Ys ! k))
         \<and> (\<forall>r < length (feature_data sc). \<forall>a < length (algorithms sc).
                scores ! r ! a
                  = votes_for Ys (enumerate 0 (canonical_pairs (length (algorithms sc)))) r a)
         \<and> PairwiseClassifier_predict self sc = Inr schedules
         \<and> map fst schedules = map fst (feature_data sc)
         \<and> (\<forall>r < length (feature_data sc). \<exists>k.
               first_maximum (scores ! r) k
             \<and> k < length (algorithms sc)
             \<and> map_of schedules (fst (feature_data sc ! r))
                 = Some [(algorithms sc ! k,
                          (case algorithm_cutoff_time sc of
                             None \<Rightarrow> 2 ^ 31 + 1
                           | Some c \<Rightarrow> if c \<noteq> 0 then c + 1 else 2 ^ 31 + 1))])"
proof -
  from predict_scores_shaped [OF fitted preds] obtain scores where
    scores: "predict_scores self sc = Inr scores"
    and shape: "shaped (length (feature_data sc)) (length (algorithms sc)) scores"
    by blast
  from shape have len: "length scores = length (feature_data sc)"
    by (simp add: shaped_def)
  let ?sched = "zip (map fst (feature_data sc))
                   (map (\<lambda>row. [(algorithms sc ! argmax_row row, predict_cutoff sc + 1)]) scores)"
  have res: "PairwiseClassifier_predict self sc = Inr ?sched"
    by (rule predict_result [OF scores len algos names])
  have keys: "map fst ?sched = map fst (feature_data sc)" using len by simp
  have each: "\<exists>k. first_maximum (scores ! r) k \<and> k < length (algorithms sc)
             \<and> map_of ?sched (fst (feature_data sc ! r))
                 = Some [(algorithms sc ! k, predict_budget sc)]"
    if r: "r < length (feature_data sc)" for r
  proof -
    from r len shape have row: "length (scores ! r) = length (algorithms sc)"
      by (simp add: shaped_def)
    with algos have "scores ! r \<noteq> []" by auto
    then have fm: "first_maximum (scores ! r) (argmax_row (scores ! r))"
      by (rule argmax_row_first_maximum)
    then have bound: "argmax_row (scores ! r) < length (algorithms sc)"
      using row by (simp add: first_maximum_def)
    have "map_of ?sched (map fst (feature_data sc) ! r)
            = Some (map (\<lambda>row. [(algorithms sc ! argmax_row row, predict_cutoff sc + 1)]) scores ! r)"
      by (rule map_of_zip_nth) (use len names r in simp_all)
    with r len have "map_of ?sched (fst (feature_data sc ! r))
            = Some [(algorithms sc ! argmax_row (scores ! r), predict_budget sc)]"
      by (simp add: predict_budget_cutoff)
    with fm bound show ?thesis by blast
  qed
  from each have all: "\<forall>r < length (feature_data sc). \<exists>k.
               first_maximum (scores ! r) k
             \<and> k < length (algorithms sc)
             \<and> map_of ?sched (fst (feature_data sc ! r))
                 = Some [(algorithms sc ! k,
                          (case algorithm_cutoff_time sc of
                             None \<Rightarrow> 2 ^ 31 + 1
                           | Some c \<Rightarrow> if c \<noteq> 0 then c + 1 else 2 ^ 31 + 1))]"
    unfolding predict_budget_def by blast
  from preds obtain f where
    f: "\<forall>k < length (algorithms sc) * (length (algorithms sc) - 1) div 2.
          (classifiers self ! k) (map snd (feature_data sc)) = Inr (f k)"
    by metis
  let ?Ys = "map f [0..<length (algorithms sc) * (length (algorithms sc) - 1) div 2]"
  have Ys: "\<forall>k < length (algorithms sc) * (length (algorithms sc) - 1) div 2.
              (classifiers self ! k) (map snd (feature_data sc)) = Inr (?Ys ! k)"
    using f by simp
  then have Ys': "\<forall>k < length (canonical_pairs (length (algorithms sc))).
              (classifiers self ! k) (map snd (feature_data sc)) = Inr (?Ys ! k)"
    by (simp only: canonical_pairs_length)
  have votes: "\<forall>r < length (feature_data sc). \<forall>a < length (algorithms sc).
                scores ! r ! a
                  = votes_for ?Ys (enumerate 0 (canonical_pairs (length (algorithms sc)))) r a"
    using predict_scores_votes [OF scores Ys'] by blast
  show ?thesis
    by (rule exI [of _ scores], rule exI [of _ ?sched], rule exI [of _ ?Ys])
       (intro conjI scores len Ys votes res keys all)
qed

theorem predict_selects_first_maximum_witness:
  "predict_scores cyclic_selector three_scenario = Inr [[1, 1, 1], [0, 1, 2]]
   \<and> PairwiseClassifier_predict cyclic_selector three_scenario
       = Inr [(''inst1'', [(''A1'', 2147483649)]), (''inst2'', [(''A3'', 2147483649)])]
   \<and> first_maximum [1, 1, 1] 0 \<and> first_maximum [0, 1, 2] 2"
proof -
  have h1: "0 < length (algorithms three_scenario)"
    by (simp add: three_scenario_def)
  have h2: "length (algorithms three_scenario) * (length (algorithms three_scenario) - 1) div 2
              \<le> length (classifiers cyclic_selector)"
    by (simp add: three_scenario_def cyclic_selector_def)
  have h3: "\<forall>k < length (algorithms three_scenario) * (length (algorithms three_scenario) - 1) div 2.
              \<exists>Y. (classifiers cyclic_selector ! k) (map snd (feature_data three_scenario)) = Inr Y
                 \<and> length Y = length (feature_data three_scenario)"
    by (simp add: three_scenario_def cyclic_selector_def constant_classifier_def
          less_Suc_eq numeral_3_eq_3 nth_Cons')
  have h4: "distinct (map fst (feature_data three_scenario))"
    by (simp add: three_scenario_def)
  have fm: "first_maximum [1, 1, 1] 0 \<and> first_maximum [0, 1, 2] 2"
    by (simp add: first_maximum_def less_Suc_eq numeral_3_eq_3 nth_Cons' atLeast0LessThan lessThan_Suc)
  from predict_selects_first_maximum [OF h1 h2 h3 h4] fm show ?thesis
    by (simp add: cyclic_scores_eval cyclic_predict_eval)
qed

text \<open>
  C8, as the code has it. \<open>predict\<close> never reads the algorithm list recorded by
  \<open>fit\<close> and makes no check against it: whatever that list is, the result is the
  same. When the scenario given to \<open>predict\<close> has at least one algorithm and distinct
  instance names, and the selector holds a classifier for each pair of that scenario's
  algorithms, each predicting one label for each instance, \<open>predict\<close> raises nothing,
  however the recorded list differs from the scenario's: it returns for each instance the
  algorithm at the index of the first maximum of the instance's votes, read from the
  scenario's own list. When the selector holds fewer classifiers than the scenario has
  pairs (each of them predicting one label for each instance), \<open>predict\<close> raises the
  \<open>IndexError\<close> of the list read, not a consistency error.
\<close>

theorem predict_ignores_fit_algorithms:
  "PairwiseClassifier_predict (self\<lparr>self_algorithms := a\<rparr>) sc
     = PairwiseClassifier_predict self sc
   \<and> (0 < length (algorithms sc)
      \<and> length (algorithms sc) * (length (algorithms sc) - 1) div 2 \<le> length (classifiers self)
      \<and> (\<forall>k < length (algorithms sc) * (length (algorithms sc) - 1) div 2.
            \<exists>Y. (classifiers self ! k) (map snd (feature_data sc)) = Inr Y
               \<and> length Y = length (feature_data sc))
      \<and> distinct (map fst (feature_data sc))
      \<longrightarrow> (\<exists>scores schedules.
             predict_scores (self\<lparr>self_algorithms := a\<rparr>) sc = Inr scores
           \<and> PairwiseClassifier_predict (self\<lparr>self_algorithms := a\<rparr>) sc = Inr schedules
           \<and> map fst schedules = map fst (feature_data sc)
           \<and> (\<forall>r < length (feature_data sc). \<exists>k.
                 first_maximum (scores ! r) k
               \<and> k < length (algorithms sc)
               \<and> map_of schedules (fst (feature_data sc ! r))
                   = Some [(algorithms sc ! k,
                            (case algorithm_cutoff_time sc of
                               None \<Rightarrow> 2 ^ 31 + 1
                             | Some c \<Rightarrow> if c \<noteq> 0 then c + 1 else 2 ^ 31 + 1))])))
   \<and> (length (classifiers self) < length (algorithms sc) * (length (algorithms sc) - 1) div 2
      \<and> (\<forall>k < length (classifiers self).
            \<exists>Y. (classifiers self ! k) (map snd (feature_data sc)) = Inr Y
               \<and> length Y = length (feature_data sc))
      \<longrightarrow> PairwiseClassifier_predict (self\<lparr>self_algorithms := a\<rparr>) sc = Inl IndexError)"
proof (intro conjI impI)
  show "PairwiseClassifier_predict (self\<lparr>self_algorithms := a\<rparr>) sc
          = PairwiseClassifier_predict self sc"
    by (rule predict_without_fit_algorithms(2))
next
  assume h: "0 < length (algorithms sc)
      \<and> length (algorithms sc) * (length (algorithms sc) - 1) div 2 \<le> length (classifiers self)
      \<and> (\<forall>k < length (algorithms sc) * (length (algorithms sc) - 1) div 2.
            \<exists>Y. (classifiers self ! k) (map snd (feature_data sc)) = Inr Y
               \<and> length Y = length (feature_data sc))
      \<and> distinct (map fst (feature_data sc))"
  from h have h1: "0 < length (algorithms sc)" by blast
  from h have h2: "length (algorithms sc) * (length (algorithms sc) - 1) div 2
                     \<le> length (classifiers self)" by blast
  from h have h3: "\<forall>k < length (algorithms sc) * (length (algorithms sc) - 1) div 2.
            \<exists>Y. (classifiers self ! k) (map snd (feature_data sc)) = Inr Y
               \<and> length Y = length (feature_data sc)" by blast
  from h have h4: "distinct (map fst (feature_data sc))" by blast
  from predict_positional [OF h1 h2 h3 h4]
  show "\<exists>scores schedules.
             predict_scores (self\<lparr>self_algorithms := a\<rparr>) sc = Inr scores
           \<and> PairwiseClassifier_predict (self\<lparr>self_algorithms := a\<rparr>) sc = Inr schedules
           \<and> map fst schedules = map fst (feature_data sc)
           \<and> (\<forall>r < length (feature_data sc). \<exists>k.
                 first_maximum (scores ! r) k
               \<and> k < length (algorithms sc)
               \<and> map_of schedules (fst (feature_data sc ! r))
                   = Some [(algorithms sc ! k,
                            (case algorithm_cutoff_time sc of
                               None \<Rightarrow> 2 ^ 31 + 1
                             | Some c \<Rightarrow> if c \<noteq> 0 then c + 1 else 2 ^ 31 + 1))])"
    unfolding predict_without_fit_algorithms predict_budget_def .
next
  assume h: "length (classifiers self) < length (algorithms sc) * (length (algorithms sc) - 1) div 2
      \<and> (\<forall>k < length (classifiers self).
            \<exists>Y. (classifiers self ! k) (map snd (feature_data sc)) = Inr Y
               \<and> length Y = length (feature_data sc))"
  then have "PairwiseClassifier_predict self sc = Inl IndexError"
    using predict_too_few_classifiers(2) by blast
  then show "PairwiseClassifier_predict (self\<lparr>self_algorithms := a\<rparr>) sc = Inl IndexError"
    by (simp only: predict_without_fit_algorithms)
qed

theorem predict_ignores_fit_algorithms_witness:
  "PairwiseClassifier_predict (cyclic_selector\<lparr>self_algorithms := Some [''B1'', ''B2'']\<rparr>)
      three_scenario
     = Inr [(''inst1'', [(''A1'', 2147483649)]), (''inst2'', [(''A3'', 2147483649)])]
   \<and> PairwiseClassifier_predict
        (\<lparr>classifiers = [constant_classifier [1, 0]], classifier_class = None,
          self_algorithms = None\<rparr>\<lparr>self_algorithms := Some [''A1'', ''A2'']\<rparr>)
        three_scenario
     = Inl IndexError"
proof -
  let ?small = "\<lparr>classifiers = [constant_classifier [1, 0]], classifier_class = None,
          self_algorithms = None\<rparr>"
  have h1: "0 < length (algorithms three_scenario)"
    by (simp add: three_scenario_def)
  have h2: "length (algorithms three_scenario) * (length (algorithms three_scenario) - 1) div 2
              \<le> length (classifiers cyclic_selector)"
    by (simp add: three_scenario_def cyclic_selector_def)
  have h3: "\<forall>k < length (algorithms three_scenario) * (length (algorithms three_scenario) - 1) div 2.
              \<exists>Y. (classifiers cyclic_selector ! k) (map snd (feature_data three_scenario)) = Inr Y
                 \<and> length Y = length (feature_data three_scenario)"
    by (simp add: three_scenario_def cyclic_selector_def constant_classifier_def
          less_Suc_eq numeral_3_eq_3 nth_Cons')
  have h4: "distinct (map fst (feature_data three_scenario))"
    by (simp add: three_scenario_def)
  have g1: "length (classifiers ?small)
              < length (algorithms three_scenario) * (length (algorithms three_scenario) - 1) div 2"
    by (simp add: three_scenario_def)
  have g2: "\<forall>k < length (classifiers ?small).
              \<exists>Y. (classifiers ?small ! k) (map snd (feature_data three_scenario)) = Inr Y
                 \<and> length Y = length (feature_data three_scenario)"
    by (simp add: three_scenario_def constant_classifier_def)
  from predict_ignores_fit_algorithms [where self = cyclic_selector
          and a = "Some [''B1'', ''B2'']" and sc = three_scenario]
       h1 h2 h3 h4
  have first: "PairwiseClassifier_predict (cyclic_selector\<lparr>self_algorithms := Some [''B1'', ''B2'']\<rparr>)
      three_scenario = PairwiseClassifier_predict cyclic_selector three_scenario"
    by blast
  from predict_ignores_fit_algorithms [where self = ?small
          and a = "Some [''A1'', ''A2'']" and sc = three_scenario] g1 g2
  have second: "PairwiseClassifier_predict (?small\<lparr>self_algorithms := Some [''A1'', ''A2'']\<rparr>)
        three_scenario = Inl IndexError"
    by blast
  from first second show ?thesis by (simp only: cyclic_predict_eval)
qed

text \<open>
  A selector fitted on the algorithms \<open>[A1, A2]\<close> predicts on a scenario that lists
  them as \<open>[A2, A1]\<close> without any error, and picks \<open>A2\<close> for the first instance,
  on which \<open>A1\<close> is the faster one.
\<close>

theorem predict_reordered_algorithms_counterexample:
  "(case PairwiseClassifier_fit (PairwiseClassifier_init (Some memorising_class)) example_scenario [] of
      Inl e \<Rightarrow> False
    | Inr s \<Rightarrow> self_algorithms s = Some [''A1'', ''A2'']
            \<and> PairwiseClassifier_predict s (example_scenario\<lparr>algorithms := [''A2'', ''A1'']\<rparr>)
                = Inr [(''inst1'', [(''A2'', 201)]), (''inst2'', [(''A1'', 201)]),
                       (''inst3'', [(''A1'', 201)])])"
  using ex_fit_eval [of "[False]"]
  by (simp add: predict_eval_defs example_scenario_def)

section \<open>Cross-validation\<close>

text \<open>
  C4, as the code has it. When the fold \<open>i\<close> of the loop of \<open>run_cv\<close> raises
  \<open>ValueError\<close> (the folds before it having run normally), the remaining folds are
  not run and \<open>run_cv\<close> raises nothing. For a scenario with a numeric cutoff the
  handler sets the penalty to \<open>cutoff * 10\<close>, or to \<open>cutoff * -10\<close> if the scenario
  maximises; the last statement of \<open>run_cv\<close> then flips the sign for a maximising
  scenario, so the value returned is \<open>cutoff * 10\<close> in both cases.
\<close>

theorem run_cv_value_error_fallback:
  assumes init: "cv_initial_stat ext scenario = Inr st0"
    and before: "for_each [1..i - 1] (cv_fold ext self config scenario) st0 = Inr st"
    and raised: "cv_fold ext self config scenario i st = Inl ValueError"
    and i: "1 \<le> i" "i \<le> folds"
    and mx: "maximize scenario = m # ms"
    and cutoff: "algorithm_cutoff_time scenario = Some c"
  shows "run_cv_try ext self config scenario folds = Inl ValueError
       \<and> run_cv_except scenario = Inr (if m then c * - 10 else c * 10)
       \<and> run_cv ext self config scenario folds = Inr (c * 10)"
proof -
  have tried: "run_cv_try ext self config scenario folds = Inl ValueError"
    by (rule run_cv_try_raises [OF init before raised i])
  from tried run_cv_after_value_error [OF tried mx cutoff] show ?thesis by simp
qed

theorem run_cv_value_error_fallback_witness:
  "run_cv example_externals fresh_autofolio example_config (accuracy_scenario False) 10 = Inr 2000
   \<and> run_cv example_externals fresh_autofolio example_config (accuracy_scenario True) 10 = Inr 2000
   \<and> run_cv_except (accuracy_scenario True) = Inr (- 2000)"
proof -
  have before: "for_each [1..1 - 1]
      (cv_fold example_externals fresh_autofolio example_config (accuracy_scenario mx)) 0 = Inr 0"
    for mx by simp
  have i: "(1::int) \<le> 1" "(1::int) \<le> 10" by simp_all
  from run_cv_value_error_fallback [OF accuracy_scenario_fields(1) before accuracy_fold_raises i
         accuracy_scenario_fields(2) accuracy_scenario_fields(3), of False]
       run_cv_value_error_fallback [OF accuracy_scenario_fields(1) before accuracy_fold_raises i
         accuracy_scenario_fields(2) accuracy_scenario_fields(3), of True]
  show ?thesis by simp
qed

text \<open>
  The claim as the specification words it fails for a maximising scenario: with the
  cutoff 200 and an unknown performance type, \<open>run_cv\<close> returns 2000, not
  \<open>200 * -10\<close>.
\<close>

theorem run_cv_maximize_counterexample:
  "run_cv example_externals fresh_autofolio example_config (accuracy_scenario True) 10 = Inr 2000
   \<and> maximize (accuracy_scenario True) = [True]
   \<and> algorithm_cutoff_time (accuracy_scenario True) = Some 200
   \<and> run_cv example_externals fresh_autofolio example_config (accuracy_scenario True) 10
       \<noteq> Inr (200 * - 10)"
proof -
  have before: "for_each [1..1 - 1]
      (cv_fold example_externals fresh_autofolio example_config (accuracy_scenario True)) 0 = Inr 0"
    by simp
  have "run_cv_try example_externals fresh_autofolio example_config (accuracy_scenario True) 10
          = Inl ValueError"
    by (rule run_cv_try_raises [OF accuracy_scenario_fields(1) before accuracy_fold_raises])
       simp_all
  from run_cv_after_value_error(2) [OF this accuracy_scenario_fields(2) accuracy_scenario_fields(3)]
  show ?thesis by (simp add: accuracy_scenario_fields)
qed

section \<open>Overwriting a configuration\<close>

text \<open>
  C9. When \<open>_overwrite_configuration\<close> returns, a parameter whose value in the given
  configuration is false in Python's sense (\<open>False\<close>, zero, \<open>None\<close>, the empty
  string, or no value at all) has the value it had, and for each pair (parameter, value)
  of the override list the warning "Unknown given parameter" with that pair has been
  logged. Nothing is asked of the configuration space: the parameter may well be one of
  its hyperparameters.
\<close>

theorem overwrite_skips_falsy_parameters:
  assumes "overwrite_configuration ext self config args = Inr (config', warnings)"
    and "\<not> truthy (dict_get config param PNone)"
  shows "map_of config' param = map_of config param
       \<and> (\<forall>value. (param, value) \<in> set (pairwise args)
             \<longrightarrow> unknown_parameter_warning param value \<in> set warnings)"
proof -
  from assms(1) have "for_each (pairwise args) (overwrite_step ext self) (config, [])
                        = Inr (config', warnings)"
    by (auto simp: overwrite_configuration_def split: sum.splits if_splits)
  from overwrite_loop_falsy [OF this assms(2)] show ?thesis by simp
qed

theorem overwrite_skips_falsy_parameters_witness:
  "overwrite_configuration example_externals tuned_autofolio
      [(''pca'', PBool False), (''n_trees'', PInt 5)] [''pca'', ''True'', ''n_trees'', ''7'']
     = Inr ([(''pca'', PBool False), (''n_trees'', PInt 7)],
            [''Unknown given parameter: pca True'', ''Unknown given parameter: True n_trees''])
   \<and> map_of [(''pca'', PBool False), (''n_trees'', PInt 7)] ''pca''
       = map_of [(''pca'', PBool False), (''n_trees'', PInt 5)] ''pca''
   \<and> unknown_parameter_warning ''pca'' ''True''
       \<in> set [''Unknown given parameter: pca True'', ''Unknown given parameter: True n_trees'']"
proof -
  have falsy: "\<not> truthy (dict_get [(''pca'', PBool False), (''n_trees'', PInt 5)] ''pca'' PNone)"
    by (simp add: dict_get_def)
  have "(''pca'', ''True'') \<in> set (pairwise [''pca'', ''True'', ''n_trees'', ''7''])"
    by (simp add: pairwise_def)
  with overwrite_skips_falsy_parameters [OF overwrite_example falsy] overwrite_example
  show ?thesis by blast
qed

section \<open>Fitting the selector\<close>

text \<open>
  C10. For a configuration whose \<open>selector\<close> value is not the string
  \<open>PairwiseClassifier\<close> (or that has no such value), \<open>fit_selector\<close> raises
  \<open>UnboundLocalError\<close>: it returns no selector and raises no other error.
\<close>

theorem fit_selector_unbound:
  assumes "config_get config ''selector'' \<noteq> PStr ''PairwiseClassifier''"
  shows "fit_selector ext scenario config = Inl UnboundLocalError"
  using assms by (simp add: fit_selector_def)

theorem fit_selector_unbound_witness:
  "fit_selector example_externals example_scenario [(''selector'', PStr ''Other'')]
     = Inl UnboundLocalError
   \<and> fit_selector example_externals example_scenario [] = Inl UnboundLocalError"
  using fit_selector_unbound [of "[(''selector'', PStr ''Other'')]" example_externals example_scenario]
    fit_selector_unbound [of "[]" example_externals example_scenario]
  by (simp add: config_get_def dict_get_def)

end
